theory Spec2Isabelle
  imports Complex_Main
begin

section \<open>C doubles\<close>

text \<open>
  The engine of \<^verbatim>\<open>filter1d.c\<close> computes on C doubles. A double is modelled as a finite
  real, one of the two infinities, or NaN. Arithmetic on finite values is exact real
  arithmetic (no rounding, no overflow); the special values follow IEEE 754. A zero divisor
  is taken as \<open>+0\<close> (the sums that serve as divisors start from \<open>0.0\<close> and never become
  \<open>-0\<close>).
\<close>

datatype dbl = Fin real | PInf | MInf | NaN

definition gmt_M_is_dnan :: "dbl \<Rightarrow> bool" where
  "gmt_M_is_dnan x = (x = NaN)"

fun dneg :: "dbl \<Rightarrow> dbl" where
  "dneg (Fin a) = Fin (- a)"
| "dneg PInf = MInf"
| "dneg MInf = PInf"
| "dneg NaN = NaN"

fun dadd :: "dbl \<Rightarrow> dbl \<Rightarrow> dbl" where
  "dadd (Fin a) (Fin b) = Fin (a + b)"
| "dadd NaN _ = NaN"
| "dadd _ NaN = NaN"
| "dadd PInf MInf = NaN"
| "dadd MInf PInf = NaN"
| "dadd PInf _ = PInf"
| "dadd _ PInf = PInf"
| "dadd MInf _ = MInf"
| "dadd _ MInf = MInf"

definition dsub :: "dbl \<Rightarrow> dbl \<Rightarrow> dbl" where
  "dsub a b = dadd a (dneg b)"

fun dabs :: "dbl \<Rightarrow> dbl" where
  "dabs (Fin a) = Fin \<bar>a\<bar>"
| "dabs PInf = PInf"
| "dabs MInf = PInf"
| "dabs NaN = NaN"

fun dmul :: "dbl \<Rightarrow> dbl \<Rightarrow> dbl" where
  "dmul (Fin a) (Fin b) = Fin (a * b)"
| "dmul NaN _ = NaN"
| "dmul _ NaN = NaN"
| "dmul (Fin a) PInf = (if a = 0 then NaN else if 0 < a then PInf else MInf)"
| "dmul (Fin a) MInf = (if a = 0 then NaN else if 0 < a then MInf else PInf)"
| "dmul PInf (Fin b) = (if b = 0 then NaN else if 0 < b then PInf else MInf)"
| "dmul MInf (Fin b) = (if b = 0 then NaN else if 0 < b then MInf else PInf)"
| "dmul PInf PInf = PInf"
| "dmul MInf MInf = PInf"
| "dmul PInf MInf = MInf"
| "dmul MInf PInf = MInf"

fun ddiv :: "dbl \<Rightarrow> dbl \<Rightarrow> dbl" where
  "ddiv (Fin a) (Fin b) =
     (if b \<noteq> 0 then Fin (a / b)
      else if a = 0 then NaN else if 0 < a then PInf else MInf)"
| "ddiv NaN _ = NaN"
| "ddiv _ NaN = NaN"
| "ddiv (Fin a) _ = Fin 0"
| "ddiv PInf (Fin b) = (if 0 \<le> b then PInf else MInf)"
| "ddiv MInf (Fin b) = (if 0 \<le> b then MInf else PInf)"
| "ddiv _ _ = NaN"

text \<open>The comparison \<open>a > b\<close> of C: false as soon as one side is NaN.\<close>

fun dgt :: "dbl \<Rightarrow> dbl \<Rightarrow> bool" where
  "dgt (Fin a) (Fin b) = (b < a)"
| "dgt NaN _ = False"
| "dgt _ NaN = False"
| "dgt PInf PInf = False"
| "dgt PInf _ = True"
| "dgt MInf _ = False"
| "dgt (Fin a) MInf = True"
| "dgt (Fin a) PInf = False"

definition dlt :: "dbl \<Rightarrow> dbl \<Rightarrow> bool" where
  "dlt a b = dgt b a"

text \<open>
  \<^verbatim>\<open>lrint\<close> of the C library under the default rounding mode: the nearest integer, a tie
  going to the even neighbour.
\<close>

definition lrint :: "real \<Rightarrow> int" where
  "lrint x =
     (let f = \<lfloor>x\<rfloor>; d = x - of_int f
      in if d < 1 / 2 then f else if 1 / 2 < d then f + 1
         else if even f then f else f + 1)"

text \<open>
  Modelled from the spec: the tolerance \<^verbatim>\<open>GMT_CONV8_LIMIT\<close> (declared in a header that is
  not among the sources) is the \<open>1e-8\<close> scale of the window tolerance, and
  \<^verbatim>\<open>gmt_M_is_zero\<close> is the test for a numerically zero value against it.
\<close>

definition GMT_CONV8_LIMIT :: real where
  "GMT_CONV8_LIMIT = 1 / 10 ^ 8"

definition gmt_M_is_zero :: "real \<Rightarrow> bool" where
  "gmt_M_is_zero x = (\<bar>x\<bar> < GMT_CONV8_LIMIT)"


section \<open>The filter structure\<close>

text \<open>
  \<^verbatim>\<open>struct FILTER1D_INFO\<close>. Of the column-major table \<^verbatim>\<open>F->data\<close>, the time column
  \<^verbatim>\<open>F->data[F->t_col]\<close> is the field \<open>tm\<close>: the engine only computes with it and never tests
  it for NaN, so its cells are finite reals. \<open>data F ! c ! i\<close> is \<^verbatim>\<open>F->data[c][i]\<close> for the
  data columns. \<open>Fin_w\<close> holds the coefficients of the table \<^verbatim>\<open>F->Fin\<close>, \<open>T_set\<close> is
  \<^verbatim>\<open>F->T.set\<close>. The scratch arrays (\<^verbatim>\<open>work\<close>, \<^verbatim>\<open>n_this_col\<close>, \<^verbatim>\<open>n_left\<close>, \<^verbatim>\<open>n_right\<close>) are
  rebuilt at every output point and are computed where they are used. A read of a table
  beyond its rows (\<open>xs ! i\<close> with \<open>i\<close> not below the length) stands for whatever the
  allocated block of the C program holds there.
\<close>

definition FILTER1D_BOXCAR :: nat where "FILTER1D_BOXCAR = 0"
definition FILTER1D_COS_ARCH :: nat where "FILTER1D_COS_ARCH = 1"
definition FILTER1D_GAUSSIAN :: nat where "FILTER1D_GAUSSIAN = 2"
definition FILTER1D_CUSTOM :: nat where "FILTER1D_CUSTOM = 3"
definition FILTER1D_MEDIAN :: nat where "FILTER1D_MEDIAN = 4"
definition FILTER1D_MODE :: nat where "FILTER1D_MODE = 5"
definition FILTER1D_LOWER_ALL :: nat where "FILTER1D_LOWER_ALL = 6"
definition FILTER1D_LOWER_POS :: nat where "FILTER1D_LOWER_POS = 7"
definition FILTER1D_UPPER_ALL :: nat where "FILTER1D_UPPER_ALL = 8"
definition FILTER1D_UPPER_NEG :: nat where "FILTER1D_UPPER_NEG = 9"
definition FILTER1D_CONVOLVE :: nat where "FILTER1D_CONVOLVE = 3"

record FILTER1D_INFO =
  use_ends :: bool
  check_asym :: bool
  check_lack :: bool
  check_q :: bool
  robust :: bool
  equidist :: bool
  out_at_time :: bool
  f_operator :: bool
  highpass :: bool
  variable :: bool
  n_cols :: nat
  t_col :: nat
  n_f_wts :: nat
  half_n_f_wts :: nat
  n_rows :: nat
  filter_type :: nat
  kind :: int
  way :: int
  mode_selection :: nat
  n_multiples :: nat
  ft :: "real list"
  fw :: "real list"
  f_wt :: "real list"
  min_loc :: "dbl list"
  max_loc :: "dbl list"
  last_loc :: "dbl list"
  this_loc :: "dbl list"
  min_scl :: "dbl list"
  max_scl :: "dbl list"
  last_scl :: "dbl list"
  this_scl :: "dbl list"
  tm :: "real list"
  data :: "dbl list list"
  dt :: real
  q_factor :: real
  filter_width :: real
  half_width :: real
  t_start :: real
  t_stop :: real
  t_start_t :: real
  t_stop_t :: real
  t_int :: real
  sym_coeff :: real
  lack_width :: real
  extreme :: real
  Fin_w :: "real list"
  T_set :: nat

section \<open>The weight functions\<close>

definition filter1d_boxcar_weight :: "real \<Rightarrow> real \<Rightarrow> real" where
  "filter1d_boxcar_weight radius hw = (if radius > hw then 0 else 1)"

definition filter1d_cosine_weight :: "real \<Rightarrow> real \<Rightarrow> real" where
  "filter1d_cosine_weight radius hw = (if radius > hw then 0 else 1 + cos (radius * pi / hw))"

definition filter1d_gaussian_weight :: "real \<Rightarrow> real \<Rightarrow> real" where
  "filter1d_gaussian_weight radius hw =
     (if radius > hw then 0 else exp (- 4.5 * radius * radius / (hw * hw)))"

text \<open>The table \<^verbatim>\<open>get_weight[3]\<close> of function pointers, indexed by the filter type.\<close>

definition get_weight :: "nat \<Rightarrow> real \<Rightarrow> real \<Rightarrow> real" where
  "get_weight ty =
     (if ty = FILTER1D_BOXCAR then filter1d_boxcar_weight
      else if ty = FILTER1D_COS_ARCH then filter1d_cosine_weight
      else filter1d_gaussian_weight)"

section \<open>The lack-of-data check\<close>

text \<open>
  \<^verbatim>\<open>filter1d_lack_check\<close>. Its inner loop
  \<^verbatim>\<open>while (!(gmt_M_is_dnan (F->data[i_col][row])) && row < (right - 1)) ++row;\<close>
  is \<open>skip_present\<close>: it steps over the rows whose sample is present and stops at the
  first NaN, or at the last row of the window. The only caller passes \<open>left < right\<close>, so
  that \<open>right - 1\<close> does not wrap.
\<close>

function skip_present :: "dbl list \<Rightarrow> nat \<Rightarrow> nat \<Rightarrow> nat" where
  "skip_present col row right =
     (if \<not> gmt_M_is_dnan (col ! row) \<and> row < right - 1
      then skip_present col (row + 1) right else row)"
  by pat_completeness auto
termination
  by (relation "measure (\<lambda>(col, row, right). right - 1 - row)") auto

declare skip_present.simps [simp del]

lemma skip_present_ge: "row \<le> skip_present col row right"
proof (induction col row right rule: skip_present.induct)
  case (1 col row right)
  then show ?case
    by (subst skip_present.simps) auto
qed

function lack_loop :: "real list \<Rightarrow> dbl list \<Rightarrow> real \<Rightarrow> nat \<Rightarrow> real \<Rightarrow> nat \<Rightarrow> bool" where
  "lack_loop ts col lw right last_t this_row =
     (if this_row < right - 1 then
        (let r = skip_present col this_row right
         in if ts ! r - last_t > lw then True
            else lack_loop ts col lw right (ts ! r) (r + 1))
      else False)"
  by pat_completeness auto
termination
proof (relation "measure (\<lambda>(ts, col, lw, right, last_t, this_row). right - 1 - this_row)")
  show "wf (measure (\<lambda>(ts, col, lw, right, last_t, this_row). right - 1 - this_row))"
    by simp
next
  fix ts :: "real list" and col :: "dbl list" and lw :: real and right :: nat
    and last_t :: real and this_row r :: nat
  assume a: "this_row < right - 1" and r: "r = skip_present col this_row right"
  have "this_row \<le> r" unfolding r by (rule skip_present_ge)
  with a show "((ts, col, lw, right, ts ! r, r + 1), (ts, col, lw, right, last_t, this_row))
      \<in> measure (\<lambda>(ts, col, lw, right, last_t, this_row). right - 1 - this_row)"
    by simp
qed

declare lack_loop.simps [simp del]

definition filter1d_lack_check :: "FILTER1D_INFO \<Rightarrow> nat \<Rightarrow> nat \<Rightarrow> nat \<Rightarrow> bool" where
  "filter1d_lack_check F i_col left right =
     (let last_row = skip_present (data F ! i_col) left right;
          last_t = tm F ! last_row
      in lack_loop (tm F) (data F ! i_col) (lack_width F) right last_t (last_row + 1))"


section \<open>Coefficients and output range\<close>

text \<open>
  \<^verbatim>\<open>filter1d_set_up_filter\<close>, in three parts. \<open>set_weights\<close> is the loop that fills the
  symmetric weight array of a convolution kernel, starting from the zeroed block that
  \<^verbatim>\<open>gmt_M_memory\<close> returns. The counters are \<^verbatim>\<open>uint64_t\<close>: the result of \<^verbatim>\<open>lrint\<close> and
  \<open>2 * half + 1\<close> are taken modulo \<open>2 ^ 64\<close>.
\<close>

definition set_weights :: "nat \<Rightarrow> real \<Rightarrow> real \<Rightarrow> nat \<Rightarrow> nat \<Rightarrow> real list" where
  "set_weights ty d hw h n =
     foldl (\<lambda>w i. let v = get_weight ty (real i * d) hw in (w[h + i := v])[h - i := v])
       (replicate n 0) [0..<h + 1]"

definition set_coefficients :: "FILTER1D_INFO \<Rightarrow> FILTER1D_INFO" where
  "set_coefficients F =
     (if filter_type F = FILTER1D_CUSTOM then
        (let n = length (Fin_w F);
             w_sum = foldl (\<lambda>s w. s + w) 0 (Fin_w F);
             wts = (if w_sum > 1 then map (\<lambda>w. w / w_sum) (Fin_w F) else Fin_w F);
             hw = real (n div 2) * dt F
         in F\<lparr>n_f_wts := n, f_wt := wts, f_operator := gmt_M_is_zero w_sum,
               half_n_f_wts := n div 2, half_width := hw, filter_width := 2 * hw\<rparr>)
      else if filter_type F \<le> FILTER1D_CONVOLVE then
        (let hw = 0.5 * filter_width F;
             h = nat (lrint (hw / dt F) mod 2 ^ 64);
             n = (2 * h + 1) mod 2 ^ 64
         in F\<lparr>half_width := hw, half_n_f_wts := h, n_f_wts := n,
               f_wt := set_weights (filter_type F) (dt F) hw h n\<rparr>)
      else F\<lparr>half_width := 0.5 * filter_width F\<rparr>)"

text \<open>
  The two scans of the native mode without \<^verbatim>\<open>-E\<close>. The first has no bound in the source:
  a half-width wider than the series makes it read beyond the loaded rows, which is
  \<open>None\<close> here.
\<close>

function scan_start :: "real list \<Rightarrow> nat \<Rightarrow> real \<Rightarrow> real \<Rightarrow> real \<Rightarrow> nat \<Rightarrow> nat option" where
  "scan_start ts n t_0 small hw row =
     (if row < n then
        (if ts ! row - t_0 + small < hw then scan_start ts n t_0 small hw (row + 1)
         else Some row)
      else None)"
  by pat_completeness auto
termination
  by (relation "measure (\<lambda>(ts, n, t_0, small, hw, row). n - row)") auto

declare scan_start.simps [simp del]

primrec scan_stop :: "real list \<Rightarrow> real \<Rightarrow> real \<Rightarrow> real \<Rightarrow> nat \<Rightarrow> nat" where
  "scan_stop ts t_1 small hw 0 = 0"
| "scan_stop ts t_1 small hw (Suc row) =
     (if t_1 - ts ! Suc row + small < hw then scan_stop ts t_1 small hw row else Suc row)"

definition set_start_stop :: "FILTER1D_INFO \<Rightarrow> real \<Rightarrow> real \<Rightarrow> FILTER1D_INFO option" where
  "set_start_stop F t_0 t_1 =
     (if out_at_time F then
        (let start = (if T_set F = 1 \<or> t_start_t F < t_0
                      then (if T_set F = 1 then of_int \<lfloor>t_0 / t_int F\<rfloor> * t_int F
                            else t_start_t F + of_int \<lfloor>(t_0 - t_start_t F) / t_int F\<rfloor> * t_int F)
                      else t_start_t F);
             stop = (if T_set F = 1 \<or> t_stop_t F > t_1
                     then (if T_set F = 1 then of_int \<lceil>t_1 / t_int F\<rceil> * t_int F
                           else t_stop_t F - of_int \<lfloor>(t_stop_t F - t_1) / t_int F\<rfloor> * t_int F)
                     else t_stop_t F)
         in if use_ends F then Some (F\<lparr>t_start := start, t_stop := stop\<rparr>)
            else Some (F\<lparr>t_start := start + half_width F, t_stop := stop - half_width F\<rparr>))
      else if use_ends F then Some (F\<lparr>t_start := t_0, t_stop := t_1\<rparr>)
      else if n_rows F < 2 then None
      else
        (let small = (tm F ! 1 - tm F ! 0) * GMT_CONV8_LIMIT
         in case scan_start (tm F) (n_rows F) t_0 small (half_width F) 0 of
              None \<Rightarrow> None
            | Some row \<Rightarrow>
                Some (F\<lparr>t_start := tm F ! row,
                        t_stop := tm F ! scan_stop (tm F) t_1 small (half_width F) (n_rows F - 1)\<rparr>)))"

text \<open>
  The whole set-up. It reads the first and the last row, and with \<^verbatim>\<open>equidist\<close> divides by
  \<open>n_rows - 1\<close>: a series too short for that is \<open>None\<close>.
\<close>

definition filter1d_set_up_filter :: "FILTER1D_INFO \<Rightarrow> FILTER1D_INFO option" where
  "filter1d_set_up_filter F =
     (if n_rows F = 0 \<or> (equidist F \<and> n_rows F < 2) then None
      else
        (let t_0 = tm F ! 0;
             t_1 = tm F ! (n_rows F - 1);
             F1 = (if equidist F then F\<lparr>dt := (t_1 - t_0) / real (n_rows F - 1)\<rparr> else F)
         in set_start_stop (set_coefficients F1) t_0 t_1))"


section \<open>Library routines\<close>

text \<open>
  The numeric routines of the GMT library that the engine calls are not part of
  \<^verbatim>\<open>filter1d.c\<close>; they are parameters of the model. \<open>gmt_median x lo hi guess\<close> is the
  median of \<open>x\<close> searched between \<open>lo\<close> and \<open>hi\<close> from the first guess; \<open>gmt_mode\<close> takes
  and returns the counter of multiple modes; \<open>gmt_intpol\<close> is \<open>None\<close> when it returns an
  error code, \<open>gmt_create_array\<close> is \<open>None\<close> when it fails and the array of output times
  otherwise.
\<close>

record GMT_lib =
  gmt_median :: "dbl list \<Rightarrow> dbl \<Rightarrow> dbl \<Rightarrow> dbl \<Rightarrow> dbl"
  gmt_mode :: "dbl list \<Rightarrow> nat \<Rightarrow> nat \<Rightarrow> nat \<Rightarrow> dbl \<times> nat"
  gmt_extreme :: "dbl list \<Rightarrow> real \<Rightarrow> int \<Rightarrow> int \<Rightarrow> dbl"
  gmt_intpol :: "real list \<Rightarrow> real list \<Rightarrow> real \<Rightarrow> real option"
  gmt_create_array :: "real \<Rightarrow> real \<Rightarrow> real \<Rightarrow> real list option"

section \<open>Robust and order-statistic estimates\<close>

text \<open>
  \<^verbatim>\<open>filter1d_get_robust_estimates\<close> for column \<open>j\<close>; \<open>work\<close> is \<^verbatim>\<open>F->work[j][0..n)\<close>. The
  deviations are taken about the value just stored in \<^verbatim>\<open>F->this_loc[j]\<close>.
\<close>

definition filter1d_get_robust_estimates ::
    "GMT_lib \<Rightarrow> FILTER1D_INFO \<Rightarrow> nat \<Rightarrow> dbl list \<Rightarrow> bool \<Rightarrow> FILTER1D_INFO" where
  "filter1d_get_robust_estimates L F j work both =
     (let (temp, nm) =
            (if filter_type F > FILTER1D_MODE
             then (gmt_extreme L work (extreme F) (kind F) (way F), n_multiples F)
             else if filter_type F = FILTER1D_MODE
             then gmt_mode L work (length work div 2) (mode_selection F) (n_multiples F)
             else (gmt_median L work (min_loc F ! j) (max_loc F ! j) (last_loc F ! j),
                   n_multiples F));
          F1 = F\<lparr>last_loc := (last_loc F)[j := temp], this_loc := (this_loc F)[j := temp],
                  n_multiples := nm\<rparr>
      in if both then
           (let work2 = map (\<lambda>x. dabs (dsub x temp)) work;
                temp2 = gmt_median L work2 (min_scl F1 ! j) (max_scl F1 ! j) (last_scl F1 ! j)
            in F1\<lparr>last_scl := (last_scl F1)[j := temp2], this_scl := (this_scl F1)[j := temp2]\<rparr>)
         else F1)"

section \<open>One output point\<close>

text \<open>The flag \<^verbatim>\<open>good_one[i_col]\<close> after the first loop over the columns.\<close>

definition good_lack :: "FILTER1D_INFO \<Rightarrow> nat \<Rightarrow> nat \<Rightarrow> nat \<Rightarrow> bool" where
  "good_lack F left right i_col =
     (if i_col = t_col F then False
      else if check_lack F then \<not> filter1d_lack_check F i_col left right
      else True)"

text \<open>The symmetry test on the two counters, as both branches of the engine write it.\<close>

definition asym_fails :: "real \<Rightarrow> nat \<Rightarrow> nat \<Rightarrow> bool" where
  "asym_fails sc n_l n_r =
     (let diff = (if n_l \<ge> n_r then n_l - n_r else n_r - n_l);
          symmetry = ddiv (Fin (real diff)) (Fin (real (n_l + n_r)))
      in dgt symmetry (Fin sc))"

text \<open>
  The robust block: the work array of a column (the window's samples that are not NaN),
  its counters, and the flag after the symmetry and the minimum-count tests.
\<close>

definition work_col :: "FILTER1D_INFO \<Rightarrow> nat \<Rightarrow> nat \<Rightarrow> nat \<Rightarrow> dbl list" where
  "work_col F i_col left right =
     filter (\<lambda>x. \<not> gmt_M_is_dnan x) (map (\<lambda>i_row. data F ! i_col ! i_row) [left..<right])"

definition n_left_all :: "FILTER1D_INFO \<Rightarrow> nat \<Rightarrow> real \<Rightarrow> nat \<Rightarrow> nat \<Rightarrow> nat" where
  "n_left_all F i_col t_time left right =
     length (filter (\<lambda>i_row. \<not> gmt_M_is_dnan (data F ! i_col ! i_row) \<and> tm F ! i_row < t_time)
       [left..<right])"

definition n_right_all :: "FILTER1D_INFO \<Rightarrow> nat \<Rightarrow> real \<Rightarrow> nat \<Rightarrow> nat \<Rightarrow> nat" where
  "n_right_all F i_col t_time left right =
     length (filter (\<lambda>i_row. \<not> gmt_M_is_dnan (data F ! i_col ! i_row) \<and> tm F ! i_row > t_time)
       [left..<right])"

definition iq :: "FILTER1D_INFO \<Rightarrow> nat" where
  "iq F = nat (lrint (q_factor F) mod 2 ^ 64)"

definition good_robust :: "FILTER1D_INFO \<Rightarrow> real \<Rightarrow> nat \<Rightarrow> nat \<Rightarrow> nat \<Rightarrow> bool" where
  "good_robust F t_time left right i_col =
     (let g0 = good_lack F left right i_col;
          n_this_col = (if g0 then length (work_col F i_col left right) else 0);
          g1 = (if check_asym F \<and> g0
                  \<and> asym_fails (sym_coeff F) (n_left_all F i_col t_time left right)
                       (n_right_all F i_col t_time left right)
                then False else g0)
      in if filter_type F > FILTER1D_CONVOLVE \<and> check_q F \<and> n_this_col < iq F
         then False else g1)"

definition robust_pass ::
    "GMT_lib \<Rightarrow> FILTER1D_INFO \<Rightarrow> (nat \<Rightarrow> bool) \<Rightarrow> nat \<Rightarrow> nat \<Rightarrow> FILTER1D_INFO" where
  "robust_pass L F good left right =
     foldl (\<lambda>G i_col. if good i_col
                       then filter1d_get_robust_estimates L G i_col
                              (work_col F i_col left right) (robust F)
                       else G)
       F [0..<n_cols F]"

text \<open>
  The convolution loop. \<open>tap_index\<close> is \<^verbatim>\<open>i_f_wt\<close>; \<open>conv_rows\<close> lists the rows of the window
  that reach the sums of a column: the tap lies inside the coefficient array and the
  sample is not NaN. \<open>conv_val\<close> is \<^verbatim>\<open>val\<close>, clipped in robust mode. The division by \<open>dt\<close>
  supposes \<open>dt \<noteq> 0\<close>, and the bound \<^verbatim>\<open>(int)F->n_f_wts\<close> of the tap supposes a coefficient
  array of fewer than \<open>2 ^ 31\<close> taps.
\<close>

definition tap_index :: "FILTER1D_INFO \<Rightarrow> real \<Rightarrow> nat \<Rightarrow> int" where
  "tap_index F t_time i_row =
     int (half_n_f_wts F) + \<lfloor>0.5 + (t_time - tm F ! i_row) / dt F\<rfloor>"

definition conv_rows :: "FILTER1D_INFO \<Rightarrow> nat \<Rightarrow> real \<Rightarrow> nat \<Rightarrow> nat \<Rightarrow> nat list" where
  "conv_rows F i_col t_time left right =
     filter (\<lambda>i_row. 0 \<le> tap_index F t_time i_row
                    \<and> tap_index F t_time i_row < int (n_f_wts F)
                    \<and> \<not> gmt_M_is_dnan (data F ! i_col ! i_row))
       [left..<right]"

definition conv_wt :: "FILTER1D_INFO \<Rightarrow> real \<Rightarrow> nat \<Rightarrow> real" where
  "conv_wt F t_time i_row = f_wt F ! nat (tap_index F t_time i_row)"

definition conv_val :: "FILTER1D_INFO \<Rightarrow> nat \<Rightarrow> nat \<Rightarrow> dbl" where
  "conv_val F i_col i_row =
     (let val = data F ! i_col ! i_row
      in if robust F then
           (let med = this_loc F ! i_col; scl = this_scl F ! i_col
            in if dgt (dabs (dsub val med)) (dmul (Fin 2.5) scl) then med else val)
         else val)"

definition wt_sum :: "FILTER1D_INFO \<Rightarrow> nat \<Rightarrow> real \<Rightarrow> nat \<Rightarrow> nat \<Rightarrow> real" where
  "wt_sum F i_col t_time left right =
     foldl (\<lambda>s i_row. s + conv_wt F t_time i_row) 0 (conv_rows F i_col t_time left right)"

definition data_sum :: "FILTER1D_INFO \<Rightarrow> nat \<Rightarrow> real \<Rightarrow> nat \<Rightarrow> nat \<Rightarrow> dbl" where
  "data_sum F i_col t_time left right =
     foldl (\<lambda>s i_row. dadd s (dmul (Fin (conv_wt F t_time i_row)) (conv_val F i_col i_row)))
       (Fin 0) (conv_rows F i_col t_time left right)"

definition n_left_conv :: "FILTER1D_INFO \<Rightarrow> nat \<Rightarrow> real \<Rightarrow> nat \<Rightarrow> nat \<Rightarrow> nat" where
  "n_left_conv F i_col t_time left right =
     length (filter (\<lambda>i_row. tm F ! i_row < t_time) (conv_rows F i_col t_time left right))"

definition n_right_conv :: "FILTER1D_INFO \<Rightarrow> nat \<Rightarrow> real \<Rightarrow> nat \<Rightarrow> nat \<Rightarrow> nat" where
  "n_right_conv F i_col t_time left right =
     length (filter (\<lambda>i_row. tm F ! i_row > t_time) (conv_rows F i_col t_time left right))"

text \<open>The flag after the loop that counts the good columns of a convolution.\<close>

definition good_conv ::
    "FILTER1D_INFO \<Rightarrow> (nat \<Rightarrow> bool) \<Rightarrow> real \<Rightarrow> nat \<Rightarrow> nat \<Rightarrow> nat \<Rightarrow> bool" where
  "good_conv F good t_time left right i_col =
     (let n_this_col = length (conv_rows F i_col t_time left right)
      in if \<not> good i_col then False
         else if n_this_col = 0 then False
         else if check_asym F \<and> \<not> robust F
                 \<and> asym_fails (sym_coeff F) (n_left_conv F i_col t_time left right)
                      (n_right_conv F i_col t_time left right)
         then False
         else if check_q F \<and> wt_sum F i_col t_time left right / real n_this_col < q_factor F
         then False
         else True)"

definition n_good_ones :: "FILTER1D_INFO \<Rightarrow> (nat \<Rightarrow> bool) \<Rightarrow> nat" where
  "n_good_ones F good = length (filter good [0..<n_cols F])"

text \<open>The two output records: order-statistic filters, and convolutions.\<close>

definition order_record :: "FILTER1D_INFO \<Rightarrow> (nat \<Rightarrow> bool) \<Rightarrow> real \<Rightarrow> nat \<Rightarrow> dbl list" where
  "order_record F good t_time k =
     map (\<lambda>i_col. if i_col = t_col F then Fin t_time
                   else if good i_col
                   then (if highpass F then dsub (data F ! i_col ! k) (this_loc F ! i_col)
                         else this_loc F ! i_col)
                   else NaN)
       [0..<n_cols F]"

definition conv_outval :: "FILTER1D_INFO \<Rightarrow> nat \<Rightarrow> real \<Rightarrow> nat \<Rightarrow> nat \<Rightarrow> dbl" where
  "conv_outval F i_col t_time left right =
     (if f_operator F then data_sum F i_col t_time left right
      else ddiv (data_sum F i_col t_time left right) (Fin (wt_sum F i_col t_time left right)))"

definition conv_record ::
    "FILTER1D_INFO \<Rightarrow> (nat \<Rightarrow> bool) \<Rightarrow> real \<Rightarrow> nat \<Rightarrow> nat \<Rightarrow> nat \<Rightarrow> dbl list" where
  "conv_record F good t_time k left right =
     map (\<lambda>i_col. if i_col = t_col F then Fin t_time
                   else if good i_col
                   then (if highpass F
                         then dsub (data F ! i_col ! k) (conv_outval F i_col t_time left right)
                         else conv_outval F i_col t_time left right)
                   else NaN)
       [0..<n_cols F]"

text \<open>
  The body of the main loop from \<^verbatim>\<open>t_time = F->T.array[k]\<close> on. \<open>point_F\<close> is the structure
  after the robust block, \<open>point_good\<close> the final flag \<^verbatim>\<open>good_one[i_col]\<close>, and \<open>filter_point\<close>
  returns the structure together with the record handed to \<^verbatim>\<open>GMT_Put_Record\<close>, if there
  is one.
\<close>

definition robust_good :: "FILTER1D_INFO \<Rightarrow> real \<Rightarrow> nat \<Rightarrow> nat \<Rightarrow> nat \<Rightarrow> bool" where
  "robust_good F t_time left right =
     (if robust F \<or> filter_type F > FILTER1D_CONVOLVE
      then good_robust F t_time left right else good_lack F left right)"

definition point_F :: "GMT_lib \<Rightarrow> FILTER1D_INFO \<Rightarrow> real \<Rightarrow> nat \<Rightarrow> nat \<Rightarrow> FILTER1D_INFO" where
  "point_F L F t_time left right =
     (if robust F \<or> filter_type F > FILTER1D_CONVOLVE
      then robust_pass L F (robust_good F t_time left right) left right else F)"

definition point_good :: "GMT_lib \<Rightarrow> FILTER1D_INFO \<Rightarrow> real \<Rightarrow> nat \<Rightarrow> nat \<Rightarrow> nat \<Rightarrow> bool" where
  "point_good L F t_time left right =
     (if filter_type F > FILTER1D_CONVOLVE then robust_good F t_time left right
      else good_conv (point_F L F t_time left right) (robust_good F t_time left right)
             t_time left right)"

definition filter_point ::
    "GMT_lib \<Rightarrow> FILTER1D_INFO \<Rightarrow> nat \<Rightarrow> real \<Rightarrow> nat \<Rightarrow> nat \<Rightarrow> FILTER1D_INFO \<times> dbl list option" where
  "filter_point L F k t_time left right =
     (let F1 = point_F L F t_time left right;
          good = point_good L F t_time left right
      in if filter_type F > FILTER1D_CONVOLVE then
           (F1, if n_good_ones F1 good = 0 then None
                else Some (order_record F1 good t_time k))
         else
           (F1, if n_good_ones F1 good = 0 then None
                else Some (conv_record F1 good t_time k left right)))"

section \<open>The window tracker and the main loop\<close>

text \<open>The two loops that move \<^verbatim>\<open>left\<close> and \<^verbatim>\<open>right\<close> for the output time \<open>t_out\<close>.\<close>

function advance_left :: "real list \<Rightarrow> nat \<Rightarrow> real \<Rightarrow> real \<Rightarrow> real \<Rightarrow> nat \<Rightarrow> nat" where
  "advance_left ts n t_out small hw left =
     (if left < n \<and> t_out - ts ! left - small > hw
      then advance_left ts n t_out small hw (left + 1) else left)"
  by pat_completeness auto
termination
  by (relation "measure (\<lambda>(ts, n, t_out, small, hw, left). n - left)") auto

declare advance_left.simps [simp del]

function advance_right :: "real list \<Rightarrow> nat \<Rightarrow> real \<Rightarrow> real \<Rightarrow> real \<Rightarrow> nat \<Rightarrow> nat" where
  "advance_right ts n t_out small hw right =
     (if right < n \<and> ts ! right - t_out - small \<le> hw
      then advance_right ts n t_out small hw (right + 1) else right)"
  by pat_completeness auto
termination
  by (relation "measure (\<lambda>(ts, n, t_out, small, hw, right). n - right)") auto

declare advance_right.simps [simp del]

text \<open>
  The state of the main loop of \<^verbatim>\<open>filter1d_do_the_filter\<close>: the output index \<^verbatim>\<open>k\<close>, the
  window, the filter structure, and the records written so far.
\<close>

record loop_state =
  st_k :: nat
  st_left :: nat
  st_right :: nat
  st_F :: FILTER1D_INFO
  st_out :: "dbl list list"

text \<open>
  The loop body from the comment \<^verbatim>\<open>Determine data window\<close> on, for the structure \<open>F\<close> in
  force at this point. \<^verbatim>\<open>n_in_filter\<close> is the signed difference of the two indices.
\<close>

definition window_step :: "GMT_lib \<Rightarrow> real list \<Rightarrow> real \<Rightarrow> loop_state \<Rightarrow> FILTER1D_INFO \<Rightarrow> loop_state" where
  "window_step L T_array small st F =
     (let k = st_k st;
          l = advance_left (tm F) (n_rows F) (T_array ! k) small (half_width F) (st_left st);
          r = advance_right (tm F) (n_rows F) (T_array ! k) small (half_width F) (st_right st);
          n_in_filter = int r - int l
      in if n_in_filter \<le> 0
            \<or> (check_lack F \<and> filter_width F / real_of_int n_in_filter > lack_width F)
         then st\<lparr>st_k := k + 1, st_left := l, st_right := r, st_F := F\<rparr>
         else
           (let (F', rec) = filter_point L F k (T_array ! k) l r
            in st\<lparr>st_k := k + 1, st_left := l, st_right := r, st_F := F',
                   st_out := (case rec of None \<Rightarrow> st_out st | Some x \<Rightarrow> st_out st @ [x])\<rparr>))"

text \<open>
  One turn of the loop. In variable-width mode the width is interpolated and the filter set
  up again first; \<open>Retry\<close> is the \<^verbatim>\<open>continue\<close> after a failure of \<^verbatim>\<open>gmt_intpol\<close>, which
  leaves \<^verbatim>\<open>k\<close> as it is. \<open>Undef\<close> is a set-up that reads beyond the loaded rows.
\<close>

datatype step_result = Retry | Undef | Next loop_state

definition filter_step :: "GMT_lib \<Rightarrow> real list \<Rightarrow> real \<Rightarrow> loop_state \<Rightarrow> step_result" where
  "filter_step L T_array small st =
     (let F = st_F st; k = st_k st
      in if variable F then
           (if T_array ! k < ft F ! 0 \<or> T_array ! k > ft F ! (length (ft F) - 1)
            then Next (st\<lparr>st_k := k + 1\<rparr>)
            else
              (case gmt_intpol L (ft F) (fw F) (T_array ! k) of
                 None \<Rightarrow> Retry
               | Some w \<Rightarrow>
                   (case filter1d_set_up_filter (F\<lparr>filter_width := w\<rparr>) of
                      None \<Rightarrow> Undef
                    | Some F' \<Rightarrow>
                        if T_array ! k < t_start F' \<or> T_array ! k > t_stop F'
                        then Next (st\<lparr>st_k := k + 1, st_F := F'\<rparr>)
                        else Next (window_step L T_array small st F'))))
         else Next (window_step L T_array small st F))"

datatype filter_result =
  GMT_RUNTIME_ERROR | Undefined_read | Filtered FILTER1D_INFO "dbl list list"

text \<open>
  \<^verbatim>\<open>while (k <= last_k)\<close>. The loop need not end: a failing interpolation is tried again
  at the same \<^verbatim>\<open>k\<close>. Not returning is the value \<open>None\<close>.
\<close>

partial_function (option) main_loop ::
    "GMT_lib \<Rightarrow> real list \<Rightarrow> real \<Rightarrow> nat \<Rightarrow> loop_state \<Rightarrow> filter_result option" where
  "main_loop L T_array small last_k st =
     (if st_k st \<le> last_k then
        (case filter_step L T_array small st of
           Retry \<Rightarrow> main_loop L T_array small last_k st
         | Undef \<Rightarrow> Some Undefined_read
         | Next st' \<Rightarrow> main_loop L T_array small last_k st')
      else Some (Filtered (st_F st) (st_out st)))"

text \<open>
  The two scans that bypass the rows outside \<open>[t_start, t_stop]\<close> in native mode. The first
  has no bound in the source: \<open>None\<close> when it leaves the loaded rows.
\<close>

function first_k :: "real list \<Rightarrow> nat \<Rightarrow> real \<Rightarrow> nat \<Rightarrow> nat option" where
  "first_k ts n start k =
     (if k < n then (if ts ! k < start then first_k ts n start (k + 1) else Some k)
      else None)"
  by pat_completeness auto
termination
  by (relation "measure (\<lambda>(ts, n, start, k). n - k)") auto

declare first_k.simps [simp del]

primrec find_last_k :: "real list \<Rightarrow> real \<Rightarrow> nat \<Rightarrow> nat" where
  "find_last_k ts stop 0 = 0"
| "find_last_k ts stop (Suc k) =
     (if ts ! Suc k > stop then find_last_k ts stop k else Suc k)"

text \<open>
  \<^verbatim>\<open>filter1d_do_the_filter\<close>. The tolerance \<^verbatim>\<open>small\<close> reads the first two output times: an
  array shorter than that is an undefined read.
\<close>

definition start_loop ::
    "GMT_lib \<Rightarrow> FILTER1D_INFO \<Rightarrow> real list \<Rightarrow> nat \<Rightarrow> nat \<Rightarrow> filter_result option" where
  "start_loop L F T_array k last_k =
     (if length T_array < 2 then Some Undefined_read
      else main_loop L T_array ((T_array ! 1 - T_array ! 0) * GMT_CONV8_LIMIT) last_k
             \<lparr>st_k = k, st_left = 0, st_right = 0, st_F = F, st_out = []\<rparr>)"

definition filter1d_do_the_filter :: "GMT_lib \<Rightarrow> FILTER1D_INFO \<Rightarrow> filter_result option" where
  "filter1d_do_the_filter L F =
     (if out_at_time F then
        (case gmt_create_array L (t_start F) (t_stop F) (t_int F) of
           None \<Rightarrow> Some GMT_RUNTIME_ERROR
         | Some T_array \<Rightarrow> start_loop L F T_array 0 (length T_array - 1))
      else
        (case first_k (tm F) (n_rows F) (t_start F) 0 of
           None \<Rightarrow> Some Undefined_read
         | Some k \<Rightarrow>
             start_loop L F (take (n_rows F) (tm F)) k
               (find_last_k (tm F) (t_stop F) (n_rows F - 1))))"


section \<open>Loading a segment\<close>

text \<open>
  The loop of \<^verbatim>\<open>GMT_filter1d\<close> that copies a segment \<open>S\<close> (column-major, \<open>S_n_rows\<close> rows)
  into \<^verbatim>\<open>F.data\<close> and checks that time does not decrease. \<open>ld_data\<close> is the block
  \<^verbatim>\<open>F.data\<close>, which keeps what it held before wherever the loop does not write. The time
  column is part of the table here and is tested for NaN. \<open>upd\<close> is the condition
  \<^verbatim>\<open>F.robust || F.filter_type == FILTER1D_MEDIAN\<close> under which the extrema are tracked.
\<close>

definition DBL_MAX :: real where
  "DBL_MAX = (2 - 1 / 2 ^ 52) * 2 ^ 1023"

datatype load_error = Time_decreases nat

record load_state =
  ld_n_rows :: nat
  ld_last_time :: dbl
  ld_data :: "dbl list list"
  ld_min_loc :: "dbl list"
  ld_max_loc :: "dbl list"

definition store_cell :: "bool \<Rightarrow> dbl list list \<Rightarrow> nat \<Rightarrow> load_state \<Rightarrow> nat \<Rightarrow> load_state" where
  "store_cell upd S row st col =
     (let v = S ! col ! row;
          st1 = st\<lparr>ld_data := (ld_data st)[col := (ld_data st ! col)[ld_n_rows st := v]]\<rparr>
      in if upd then
           st1\<lparr>ld_max_loc := (if dgt v (ld_max_loc st ! col) then (ld_max_loc st)[col := v]
                               else ld_max_loc st),
                ld_min_loc := (if dlt v (ld_min_loc st ! col) then (ld_min_loc st)[col := v]
                               else ld_min_loc st)\<rparr>
         else st1)"

function load_rows ::
    "bool \<Rightarrow> nat \<Rightarrow> nat \<Rightarrow> dbl list list \<Rightarrow> nat \<Rightarrow> nat \<Rightarrow> load_state \<Rightarrow> load_error + load_state" where
  "load_rows upd ncols tcol S S_n_rows row st =
     (if row < S_n_rows then
        (let v = S ! tcol ! row
         in if gmt_M_is_dnan v
            then load_rows upd ncols tcol S S_n_rows (row + 1) (st\<lparr>ld_n_rows := ld_n_rows st + 1\<rparr>)
            else if dlt v (ld_last_time st) then Inl (Time_decreases row)
            else load_rows upd ncols tcol S S_n_rows (row + 1)
                   ((foldl (store_cell upd S row) (st\<lparr>ld_last_time := v\<rparr>) [0..<ncols])
                      \<lparr>ld_n_rows := ld_n_rows st + 1\<rparr>))
      else Inr st)"
  by pat_completeness auto
termination
  by (relation "measure (\<lambda>(upd, ncols, tcol, S, S_n_rows, row, st). S_n_rows - row)") auto

declare load_rows.simps [simp del]

definition load_segment ::
    "bool \<Rightarrow> nat \<Rightarrow> nat \<Rightarrow> dbl list list \<Rightarrow> nat \<Rightarrow> load_state \<Rightarrow> load_error + load_state" where
  "load_segment upd ncols tcol S S_n_rows st =
     load_rows upd ncols tcol S S_n_rows 0
       (st\<lparr>ld_n_rows := 0, ld_last_time := Fin (- DBL_MAX),
           ld_min_loc := (if upd then replicate ncols (Fin DBL_MAX) else ld_min_loc st),
           ld_max_loc := (if upd then replicate ncols (Fin (- DBL_MAX)) else ld_max_loc st)\<rparr>)"

section \<open>What the robust block leaves alone\<close>

text \<open>
  The robust block writes the location and scale estimates and the counter of multiple
  modes, nothing else: a field of the structure that does not depend on these keeps its
  value.
\<close>

definition keeps :: "(FILTER1D_INFO \<Rightarrow> 'a) \<Rightarrow> bool" where
  "keeps f =
     (\<forall>G a b c d e. f (G\<lparr>last_loc := a\<rparr>) = f G \<and> f (G\<lparr>this_loc := b\<rparr>) = f G
        \<and> f (G\<lparr>n_multiples := c\<rparr>) = f G \<and> f (G\<lparr>last_scl := d\<rparr>) = f G
        \<and> f (G\<lparr>this_scl := e\<rparr>) = f G)"

lemma keeps_estimates:
  "keeps f \<Longrightarrow> f (filter1d_get_robust_estimates L G j w both) = f G"
  unfolding keeps_def filter1d_get_robust_estimates_def Let_def
  by (simp split: prod.split)

lemma keeps_fold:
  "keeps f \<Longrightarrow>
   f (foldl (\<lambda>G c. if good c then filter1d_get_robust_estimates L G c (wk c) b else G) G cols)
     = f G"
  by (induction cols arbitrary: G) (simp_all add: keeps_estimates)

lemma keeps_pass: "keeps f \<Longrightarrow> f (robust_pass L F good left right) = f F"
  unfolding robust_pass_def by (rule keeps_fold)

lemma keeps_point: "keeps f \<Longrightarrow> f (point_F L F t left right) = f F"
  by (simp add: point_F_def keeps_pass)

lemma keeps_fields:
  "keeps n_cols" "keeps t_col" "keeps highpass" "keeps data" "keeps tm" "keeps f_operator"
  "keeps f_wt" "keeps n_f_wts" "keeps half_n_f_wts" "keeps dt" "keeps robust"
  "keeps filter_type" "keeps check_asym" "keeps check_q" "keeps check_lack"
  "keeps sym_coeff" "keeps q_factor" "keeps min_loc" "keeps max_loc" "keeps min_scl"
  "keeps max_scl" "keeps n_rows"
  by (simp_all add: keeps_def)

section \<open>What the set-up leaves alone\<close>

lemma set_start_stop_fields:
  assumes "set_start_stop G t_0 t_1 = Some F"
  shows "filter_type F = filter_type G" "half_width F = half_width G"
    "filter_width F = filter_width G" "half_n_f_wts F = half_n_f_wts G"
    "n_f_wts F = n_f_wts G" "f_wt F = f_wt G" "dt F = dt G" "n_rows F = n_rows G"
    "tm F = tm G" "data F = data G"
  using assms
  by (auto simp: set_start_stop_def Let_def split: if_splits option.splits)

lemma set_coefficients_keeps:
  "out_at_time (set_coefficients G) = out_at_time G"
  "n_rows (set_coefficients G) = n_rows G" "tm (set_coefficients G) = tm G"
  by (simp_all add: set_coefficients_def Let_def)

lemma set_up_keeps:
  assumes "filter1d_set_up_filter F = Some G"
  shows "tm G = tm F" "n_rows G = n_rows F"
proof -
  define H where "H = (if equidist F
      then F\<lparr>dt := (tm F ! (n_rows F - 1) - tm F ! 0) / real (n_rows F - 1)\<rparr> else F)"
  have h: "tm H = tm F" "n_rows H = n_rows F" by (simp_all add: H_def)
  from assms have ss: "set_start_stop (set_coefficients H) (tm F ! 0) (tm F ! (n_rows F - 1)) = Some G"
    by (simp add: filter1d_set_up_filter_def H_def Let_def split: if_splits)
  show "tm G = tm F" using set_start_stop_fields(9) [OF ss] by (simp add: set_coefficients_keeps h)
  show "n_rows G = n_rows F"
    using set_start_stop_fields(8) [OF ss] by (simp add: set_coefficients_keeps h)
qed

section \<open>Unfolding the loops\<close>

lemma skip_present_step:
  "\<not> gmt_M_is_dnan (col ! row) \<Longrightarrow> row < right - 1 \<Longrightarrow>
   skip_present col row right = skip_present col (row + 1) right"
  by (subst skip_present.simps) simp

lemma skip_present_nan: "gmt_M_is_dnan (col ! row) \<Longrightarrow> skip_present col row right = row"
  by (subst skip_present.simps) simp

lemma skip_present_end: "\<not> row < right - 1 \<Longrightarrow> skip_present col row right = row"
  by (subst skip_present.simps) simp

lemma lack_loop_end:
  "\<not> this_row < right - 1 \<Longrightarrow> lack_loop ts col lw right last_t this_row = False"
  by (subst lack_loop.simps) simp

lemma lack_loop_unfold:
  "this_row < right - 1 \<Longrightarrow>
   lack_loop ts col lw right last_t this_row =
     (if ts ! skip_present col this_row right - last_t > lw then True
      else lack_loop ts col lw right (ts ! skip_present col this_row right)
             (skip_present col this_row right + 1))"
  by (subst lack_loop.simps) (simp add: Let_def)

lemma advance_left_step:
  "left < n \<Longrightarrow> t_out - ts ! left - small > hw \<Longrightarrow>
   advance_left ts n t_out small hw left = advance_left ts n t_out small hw (left + 1)"
  by (subst advance_left.simps) simp

lemma advance_left_stop:
  "\<not> t_out - ts ! left - small > hw \<Longrightarrow> advance_left ts n t_out small hw left = left"
  by (subst advance_left.simps) simp

lemma advance_left_end: "\<not> left < n \<Longrightarrow> advance_left ts n t_out small hw left = left"
  by (subst advance_left.simps) simp

lemma advance_right_step:
  "right < n \<Longrightarrow> ts ! right - t_out - small \<le> hw \<Longrightarrow>
   advance_right ts n t_out small hw right = advance_right ts n t_out small hw (right + 1)"
  by (subst advance_right.simps) simp

lemma advance_right_stop:
  "\<not> ts ! right - t_out - small \<le> hw \<Longrightarrow> advance_right ts n t_out small hw right = right"
  by (subst advance_right.simps) simp

lemma advance_right_end: "\<not> right < n \<Longrightarrow> advance_right ts n t_out small hw right = right"
  by (subst advance_right.simps) simp

lemma scan_start_step:
  "row < n \<Longrightarrow> ts ! row - t_0 + small < hw \<Longrightarrow>
   scan_start ts n t_0 small hw row = scan_start ts n t_0 small hw (row + 1)"
  by (subst scan_start.simps) simp

lemma scan_start_stop:
  "row < n \<Longrightarrow> \<not> ts ! row - t_0 + small < hw \<Longrightarrow> scan_start ts n t_0 small hw row = Some row"
  by (subst scan_start.simps) simp

lemma first_k_step:
  "k < n \<Longrightarrow> ts ! k < start \<Longrightarrow> first_k ts n start k = first_k ts n start (k + 1)"
  by (subst first_k.simps) simp

lemma first_k_stop: "k < n \<Longrightarrow> \<not> ts ! k < start \<Longrightarrow> first_k ts n start k = Some k"
  by (subst first_k.simps) simp

lemma main_loop_exit:
  "\<not> st_k st \<le> last_k \<Longrightarrow>
   main_loop L T_array small last_k st = Some (Filtered (st_F st) (st_out st))"
  by (subst main_loop.simps) simp

lemma main_loop_next:
  "st_k st \<le> last_k \<Longrightarrow> filter_step L T_array small st = Next st' \<Longrightarrow>
   main_loop L T_array small last_k st = main_loop L T_array small last_k st'"
  by (subst main_loop.simps) simp

section \<open>Example inputs\<close>

text \<open>
  The structure as \<^verbatim>\<open>GMT_filter1d\<close> clears it (\<^verbatim>\<open>gmt_M_memset\<close>, then \<^verbatim>\<open>equidist = true\<close>);
  the examples set the fields that \<^verbatim>\<open>filter1d_load_parameters\<close> and the loader would set.
  \<open>ref_lib\<close> stands in for the library in the examples: its median sorts the finite values
  and takes the middle (the mean of the two middle values for an even count).
\<close>

definition F_zero :: FILTER1D_INFO where
  "F_zero = \<lparr>use_ends = False, check_asym = False, check_lack = False, check_q = False,
     robust = False, equidist = True, out_at_time = False, f_operator = False,
     highpass = False, variable = False, n_cols = 0, t_col = 0, n_f_wts = 0,
     half_n_f_wts = 0, n_rows = 0, filter_type = 0, kind = 0, way = 0, mode_selection = 0,
     n_multiples = 0, ft = [], fw = [], f_wt = [], min_loc = [], max_loc = [], last_loc = [],
     this_loc = [], min_scl = [], max_scl = [], last_scl = [], this_scl = [], tm = [],
     data = [], dt = 0, q_factor = 0, filter_width = 0, half_width = 0, t_start = 0,
     t_stop = 0, t_start_t = 0, t_stop_t = 0, t_int = 0, sym_coeff = 0, lack_width = 0,
     extreme = 0, Fin_w = [], T_set = 0\<rparr>"

fun fin_values :: "dbl list \<Rightarrow> real list" where
  "fin_values [] = []"
| "fin_values (Fin a # xs) = a # fin_values xs"
| "fin_values (_ # xs) = fin_values xs"

definition ref_median :: "dbl list \<Rightarrow> dbl \<Rightarrow> dbl \<Rightarrow> dbl \<Rightarrow> dbl" where
  "ref_median x lo hi guess =
     (let ys = sort (fin_values x); n = length ys
      in if n = 0 then NaN
         else if odd n then Fin (ys ! (n div 2))
         else Fin ((ys ! (n div 2 - 1) + ys ! (n div 2)) / 2))"

definition ref_lib :: GMT_lib where
  "ref_lib = \<lparr>gmt_median = ref_median,
     gmt_mode = (\<lambda>x n_smooth sel count. (ref_median x NaN NaN NaN, count)),
     gmt_extreme = (\<lambda>x e kd wy. ref_median x NaN NaN NaN),
     gmt_intpol = (\<lambda>x y t. None),
     gmt_create_array = (\<lambda>start stop inc. None)\<rparr>"

text \<open>
  For the examples with resampled output the library's \<^verbatim>\<open>gmt_create_array\<close> is
  \<open>even_times\<close>, the times from \<open>start\<close> to \<open>stop\<close> in steps of \<open>inc\<close>.
\<close>

definition even_times :: "real \<Rightarrow> real \<Rightarrow> real \<Rightarrow> real list option" where
  "even_times start stop inc =
     (if inc \<le> 0 \<or> stop < start then None
      else Some (map (\<lambda>i. start + real i * inc) [0..<nat \<lfloor>(stop - start) / inc\<rfloor> + 1]))"



lemmas filter_types = FILTER1D_BOXCAR_def FILTER1D_COS_ARCH_def FILTER1D_GAUSSIAN_def
  FILTER1D_CUSTOM_def FILTER1D_MEDIAN_def FILTER1D_MODE_def FILTER1D_CONVOLVE_def



lemma box_weights: "set_weights 0 1 1 (Suc 0) 3 = [1, 1, 1]"
  by (simp add: set_weights_def get_weight_def filter1d_boxcar_weight_def filter_types
      eval_nat_numeral)


lemma box_scan: "scan_start [0, 1, 2, 3, 4] 5 0 (1 / 100000000) 1 0 = Some 1"
  by (simp add: scan_start_step scan_start_stop)

lemma box_scan2: "scan_stop [0, 1, 2, 3, 4] 4 (1 / 100000000) 1 4 = 3"
  by (simp add: eval_nat_numeral)


lemma upt_0_2: "[0..<2] = [0, Suc 0]"
  by (simp add: upt_rec)

lemma upt_0_3: "[0..<3] = [0, Suc 0, 2]"
  by (simp add: upt_rec)

lemma upt_0_5: "[0..<5] = [0, Suc 0, 2, 3, 4]"
  by (simp add: upt_rec)

lemma upt_1_4: "[Suc 0..<4] = [Suc 0, 2, 3]"
  by (simp add: upt_rec)

lemma floor_minus_one: "\<lfloor>- 1 :: real\<rfloor> = - 1"
  using floor_of_int [of "- 1", where ?'a = real] by simp

lemma upt_0_4: "[0..<4] = [0, Suc 0, 2, 3]"
  by (simp add: upt_rec)

lemma upt_2_5: "[2..<5] = [2, 3, 4]"
  by (simp add: upt_rec)

lemma box_windows:
  "advance_left [0, 1, 2, 3, 4] 5 1 (1 / 100000000) 1 0 = 0"
  "advance_right [0, 1, 2, 3, 4] 5 1 (1 / 100000000) 1 0 = 3"
  "advance_left [0, 1, 2, 3, 4] 5 2 (1 / 100000000) 1 0 = Suc 0"
  "advance_right [0, 1, 2, 3, 4] 5 2 (1 / 100000000) 1 3 = 4"
  "advance_left [0, 1, 2, 3, 4] 5 3 (1 / 100000000) 1 (Suc 0) = 2"
  "advance_right [0, 1, 2, 3, 4] 5 3 (1 / 100000000) 1 4 = 5"
  by (simp_all add: advance_left_step advance_left_stop advance_right_step advance_right_stop
      advance_right_end)

text \<open>
  Five rows at the times 0.5, 1, 2, 3, 4.5 with \<^verbatim>\<open>-Fb3\<close>, native output, no \<^verbatim>\<open>-E\<close>. The
  set-up takes \<open>dt = 1\<close> from the ends of the series; the half-width 1.5 gives five taps,
  and the two outer ones, 2 from the centre, have the weight 0.
\<close>

definition wide_ex :: "dbl list list \<Rightarrow> FILTER1D_INFO" where
  "wide_ex d = F_zero\<lparr>n_cols := length d, n_rows := 5, filter_type := FILTER1D_BOXCAR,
     tm := [1 / 2, 1, 2, 3, 9 / 2], data := d, filter_width := 3\<rparr>"

definition wide_set :: "dbl list list \<Rightarrow> FILTER1D_INFO" where
  "wide_set d = (wide_ex d)\<lparr>dt := 1, half_width := 3 / 2, half_n_f_wts := 2, n_f_wts := 5,
     f_wt := [0, 1, 1, 1, 0], t_start := 2, t_stop := 3\<rparr>"

lemma wide_ex_fields:
  "n_rows (wide_ex d) = 5" "equidist (wide_ex d) = True" "tm (wide_ex d) = [1 / 2, 1, 2, 3, 9 / 2]"
  "filter_type (wide_ex d) = 0" "filter_width (wide_ex d) = 3"
  "out_at_time (wide_ex d) = False" "use_ends (wide_ex d) = False"
  by (simp_all add: wide_ex_def F_zero_def filter_types)

lemma wide_set_fields:
  "n_rows (wide_set d) = 5" "tm (wide_set d) = [1 / 2, 1, 2, 3, 9 / 2]" "data (wide_set d) = d"
  "n_cols (wide_set d) = length d" "t_col (wide_set d) = 0"
  "filter_type (wide_set d) = 0" "filter_width (wide_set d) = 3" "dt (wide_set d) = 1"
  "half_width (wide_set d) = 3 / 2" "half_n_f_wts (wide_set d) = 2" "n_f_wts (wide_set d) = 5"
  "f_wt (wide_set d) = [0, 1, 1, 1, 0]" "t_start (wide_set d) = 2" "t_stop (wide_set d) = 3"
  "out_at_time (wide_set d) = False" "use_ends (wide_set d) = False"
  "robust (wide_set d) = False" "variable (wide_set d) = False" "highpass (wide_set d) = False"
  "check_lack (wide_set d) = False" "check_asym (wide_set d) = False"
  "check_q (wide_set d) = False" "f_operator (wide_set d) = False"
  by (simp_all add: wide_set_def wide_ex_def F_zero_def filter_types)

lemma wide_weights: "set_weights 0 1 (3 / 2) 2 5 = [0, 1, 1, 1, 0]"
  by (simp add: set_weights_def get_weight_def filter1d_boxcar_weight_def filter_types
      eval_nat_numeral)

lemma wide_lrint: "lrint (3 / 2) = 2"
proof -
  have "\<lfloor>3 / 2 :: real\<rfloor> = 1" by linarith
  then show ?thesis by (simp add: lrint_def Let_def)
qed

lemma wide_coeff:
  "set_coefficients ((wide_ex d)\<lparr>dt := 1\<rparr>) =
     (wide_ex d)\<lparr>dt := 1, half_width := 3 / 2, half_n_f_wts := 2, n_f_wts := 5,
       f_wt := [0, 1, 1, 1, 0]\<rparr>"
  by (simp add: set_coefficients_def wide_ex_fields filter_types wide_lrint Let_def wide_weights)

lemma wide_scan:
  "scan_start [1 / 2, 1, 2, 3, 9 / 2] 5 (1 / 2) (1 / 200000000) (3 / 2) 0 = Some 2"
  by (simp add: scan_start_step scan_start_stop)

lemma wide_scan2:
  "scan_stop [1 / 2, 1, 2, 3, 9 / 2] (9 / 2) (1 / 200000000) (3 / 2) 4 = 3"
  by (simp add: eval_nat_numeral)

lemma wide_set_up: "filter1d_set_up_filter (wide_ex d) = Some (wide_set d)"
  by (simp add: filter1d_set_up_filter_def wide_ex_fields wide_coeff set_start_stop_def
      GMT_CONV8_LIMIT_def wide_scan wide_scan2 wide_set_def)

lemma wide_first: "first_k [1 / 2, 1, 2, 3, 9 / 2] 5 2 0 = Some 2"
  by (simp add: first_k_step first_k_stop)

lemma wide_last: "find_last_k [1 / 2, 1, 2, 3, 9 / 2] 3 4 = 3"
  by (simp add: eval_nat_numeral)

lemma wide_windows:
  "advance_left [1 / 2, 1, 2, 3, 9 / 2] 5 2 (1 / 200000000) (3 / 2) 0 = 0"
  "advance_right [1 / 2, 1, 2, 3, 9 / 2] 5 2 (1 / 200000000) (3 / 2) 0 = 4"
  "advance_left [1 / 2, 1, 2, 3, 9 / 2] 5 3 (1 / 200000000) (3 / 2) 0 = 2"
  "advance_right [1 / 2, 1, 2, 3, 9 / 2] 5 3 (1 / 200000000) (3 / 2) 4 = 5"
  by (simp_all add: advance_left_step advance_left_stop advance_right_step advance_right_stop
      advance_right_end)

lemma wide_taps:
  "tap_index (wide_set d) 2 0 = 4" "tap_index (wide_set d) 2 (Suc 0) = 3"
  "tap_index (wide_set d) 2 2 = 2" "tap_index (wide_set d) 2 3 = 1"
  "tap_index (wide_set d) 3 2 = 3" "tap_index (wide_set d) 3 3 = 2"
  "tap_index (wide_set d) 3 4 = 1"
  by (simp_all add: tap_index_def wide_set_fields floor_minus_one)

lemma wide_point_F: "point_F L (wide_set d) t left right = wide_set d"
  by (simp add: point_F_def wide_set_fields filter_types)

text \<open>
  A window of five rows at the times 0, 1, 2, 10, 11 whose samples are all present, with
  \<^verbatim>\<open>-L5\<close> and a filter 12 wide.
\<close>

definition lack_ex :: FILTER1D_INFO where
  "lack_ex = F_zero\<lparr>n_cols := 2, n_rows := 5, check_lack := True, lack_width := 5,
     tm := [0, 1, 2, 10, 11],
     data := [[Fin 0, Fin 1, Fin 2, Fin 10, Fin 11], [Fin 1, Fin 2, Fin 3, Fin 4, Fin 5]],
     dt := 1, filter_width := 12, half_width := 6\<rparr>"

lemma lack_ex_fields:
  "tm lack_ex = [0, 1, 2, 10, 11]"
  "data lack_ex = [[Fin 0, Fin 1, Fin 2, Fin 10, Fin 11], [Fin 1, Fin 2, Fin 3, Fin 4, Fin 5]]"
  "lack_width lack_ex = 5" "check_lack lack_ex" "t_col lack_ex = 0"
  "filter_width lack_ex = 12" "half_width lack_ex = 6" "n_rows lack_ex = 5"
  by (simp_all add: lack_ex_def F_zero_def)

lemma lack_ex_skip: "skip_present [Fin 1, Fin 2, Fin 3, Fin 4, Fin 5] 0 5 = 4"
  by (simp add: skip_present_step skip_present_end gmt_M_is_dnan_def)

text \<open>
  The same present samples in a window of twelve rows at the times 0 to 11, the samples
  of the rows at 3 to 9 missing.
\<close>

definition gap_ex :: FILTER1D_INFO where
  "gap_ex = F_zero\<lparr>n_cols := 2, n_rows := 12, check_lack := True, lack_width := 5,
     tm := [0, 1, 2, 3, 4, 5, 6, 7, 8, 9, 10, 11],
     data := [[Fin 0, Fin 1, Fin 2, Fin 3, Fin 4, Fin 5, Fin 6, Fin 7, Fin 8, Fin 9, Fin 10,
               Fin 11],
              [Fin 1, Fin 2, Fin 3, NaN, NaN, NaN, NaN, NaN, NaN, NaN, Fin 4, Fin 5]],
     dt := 1, filter_width := 12, half_width := 6\<rparr>"

lemma gap_ex_fields:
  "tm gap_ex = [0, 1, 2, 3, 4, 5, 6, 7, 8, 9, 10, 11]"
  "data gap_ex ! Suc 0 = [Fin 1, Fin 2, Fin 3, NaN, NaN, NaN, NaN, NaN, NaN, NaN, Fin 4, Fin 5]"
  "lack_width gap_ex = 5" "check_lack gap_ex" "t_col gap_ex = 0"
  by (simp_all add: gap_ex_def F_zero_def)

lemma gap_ex_skips:
  "skip_present [Fin 1, Fin 2, Fin 3, NaN, NaN, NaN, NaN, NaN, NaN, NaN, Fin 4, Fin 5] 0 12 = 3"
  "skip_present [Fin 1, Fin 2, Fin 3, NaN, NaN, NaN, NaN, NaN, NaN, NaN, Fin 4, Fin 5] 4 12 = 4"
  "skip_present [Fin 1, Fin 2, Fin 3, NaN, NaN, NaN, NaN, NaN, NaN, NaN, Fin 4, Fin 5] 5 12 = 5"
  "skip_present [Fin 1, Fin 2, Fin 3, NaN, NaN, NaN, NaN, NaN, NaN, NaN, Fin 4, Fin 5] 6 12 = 6"
  "skip_present [Fin 1, Fin 2, Fin 3, NaN, NaN, NaN, NaN, NaN, NaN, NaN, Fin 4, Fin 5] 7 12 = 7"
  "skip_present [Fin 1, Fin 2, Fin 3, NaN, NaN, NaN, NaN, NaN, NaN, NaN, Fin 4, Fin 5] 8 12 = 8"
  "skip_present [Fin 1, Fin 2, Fin 3, NaN, NaN, NaN, NaN, NaN, NaN, NaN, Fin 4, Fin 5] 9 12 = 9"
  "skip_present [Fin 1, Fin 2, Fin 3, NaN, NaN, NaN, NaN, NaN, NaN, NaN, Fin 4, Fin 5] 10 12 = 11"
  by (simp_all add: skip_present_step skip_present_nan skip_present_end gmt_M_is_dnan_def)

lemma gap_ex_check: "\<not> filter1d_lack_check gap_ex (Suc 0) 0 12"
  by (simp add: filter1d_lack_check_def gap_ex_fields gap_ex_skips lack_loop_unfold
      lack_loop_end)

section \<open>C4: the lack-of-data gate\<close>

text \<open>
  C4. The lack gate is to walk the present samples of the window and to fail the column when
  two consecutive present samples are more than \<open>lack_width\<close> apart; the samples at
  0, 1, 2, 10, 11 are to be rejected with \<open>lack_width = 5\<close>. The loops of
  \<^verbatim>\<open>filter1d_lack_check\<close> test \<^verbatim>\<open>!gmt_M_is_dnan\<close>: they step over the present samples and
  stop at the missing ones, so what is compared with \<open>lack_width\<close> is the time from one
  missing sample to the next. On a window of five rows without NaN the first loop runs to
  the last row and nothing is compared; on the window of twelve rows the missing samples
  are one time step apart. Either way the check reports no lack and the column with the
  gap of 8 stays good.
\<close>

theorem lack_check_misses_gap:
  "\<not> filter1d_lack_check lack_ex 1 0 5 \<and> good_lack lack_ex 0 5 1
   \<and> \<not> filter1d_lack_check gap_ex 1 0 12 \<and> good_lack gap_ex 0 12 1"
proof -
  have a: "\<not> filter1d_lack_check lack_ex 1 0 5"
    by (simp add: filter1d_lack_check_def lack_ex_fields lack_ex_skip lack_loop_end)
  have b: "\<not> filter1d_lack_check gap_ex 1 0 12"
    using gap_ex_check by simp
  show ?thesis
    using a b by (simp add: good_lack_def lack_ex_fields gap_ex_fields)
qed

section \<open>C7: skipped output times\<close>

text \<open>
  C7. When the window is empty, or the lack check is on and
  \<open>filter_width / (right - left) > lack_width\<close>, the output time is skipped: the loop body
  only moves the window and steps to the next output time. The structure (with every
  estimate in it) and the records written so far stay as they are.
\<close>

theorem skip_window:
  assumes "l = advance_left (tm F) (n_rows F) (T_array ! st_k st) small (half_width F) (st_left st)"
    and "r = advance_right (tm F) (n_rows F) (T_array ! st_k st) small (half_width F) (st_right st)"
    and "r \<le> l \<or> (check_lack F \<and> filter_width F / real (r - l) > lack_width F)"
  shows "window_step L T_array small st F =
           st\<lparr>st_k := st_k st + 1, st_left := l, st_right := r, st_F := F\<rparr>"
proof -
  have "int r - int l \<le> 0 \<or>
      (check_lack F \<and> filter_width F / real_of_int (int r - int l) > lack_width F)"
  proof (cases "r \<le> l")
    case True
    then show ?thesis by simp
  next
    case False
    then have "real_of_int (int r - int l) = real (r - l)" by simp
    with assms(3) False show ?thesis by simp
  qed
  then show ?thesis
    unfolding window_step_def assms(1)[symmetric] assms(2)[symmetric] Let_def
    by (simp only: if_True)
qed

theorem skip_window_witness:
  "window_step ref_lib [0, 1, 2, 10, 11] (1 / 10 ^ 8)
     \<lparr>st_k = 3, st_left = 0, st_right = 0, st_F = lack_ex, st_out = []\<rparr> lack_ex =
   \<lparr>st_k = 4, st_left = 3, st_right = 5, st_F = lack_ex, st_out = []\<rparr>"
proof -
  have l: "3 = advance_left (tm lack_ex) (n_rows lack_ex) ([0, 1, 2, 10, 11] ! 3) (1 / 10 ^ 8)
      (half_width lack_ex) 0"
    by (simp add: lack_ex_fields advance_left_step advance_left_stop)
  have r: "5 = advance_right (tm lack_ex) (n_rows lack_ex) ([0, 1, 2, 10, 11] ! 3) (1 / 10 ^ 8)
      (half_width lack_ex) 0"
    by (simp add: lack_ex_fields advance_right_step advance_right_end)
  have c: "(5::nat) \<le> 3 \<or>
      (check_lack lack_ex \<and> filter_width lack_ex / real (5 - 3 :: nat) > lack_width lack_ex)"
    by (simp add: lack_ex_fields)
  show ?thesis
    using skip_window [of 3 lack_ex "[0, 1, 2, 10, 11]"
        "\<lparr>st_k = 3, st_left = 0, st_right = 0, st_F = lack_ex, st_out = []\<rparr>" "1 / 10 ^ 8" 5 ref_lib]
      l r c
    by simp
qed

section \<open>C8: records without a good column\<close>

lemma robust_good_t_col: "\<not> robust_good F t left right (t_col F)"
  by (simp add: robust_good_def good_robust_def good_lack_def Let_def)

lemma point_good_t_col: "\<not> point_good L F t left right (t_col F)"
  by (simp add: point_good_def good_conv_def robust_good_t_col Let_def)

lemma n_good_ones_zero: "(n_good_ones F good = 0) = (\<forall>c<n_cols F. \<not> good c)"
  by (auto simp: n_good_ones_def filter_empty_conv)

text \<open>
  What the engine does at an output point: it writes no record exactly when it has flagged
  no data column as good, and in a record the cell of a data column that is not flagged
  is NaN.
\<close>

lemma record_iff_good_column:
  "(snd (filter_point L F k t left right) = None)
     = (\<forall>c<n_cols F. c \<noteq> t_col F \<longrightarrow> \<not> point_good L F t left right c)
   \<and> (\<forall>rec. snd (filter_point L F k t left right) = Some rec \<longrightarrow>
         length rec = n_cols F
         \<and> (\<forall>c<n_cols F. c \<noteq> t_col F \<longrightarrow> \<not> point_good L F t left right c \<longrightarrow> rec ! c = NaN))"
proof -
  have n: "n_cols (point_F L F t left right) = n_cols F"
    by (rule keeps_point) (rule keeps_fields)
  have tc: "t_col (point_F L F t left right) = t_col F"
    by (rule keeps_point) (rule keeps_fields)
  have z: "(n_good_ones (point_F L F t left right) (point_good L F t left right) = 0)
      = (\<forall>c<n_cols F. c \<noteq> t_col F \<longrightarrow> \<not> point_good L F t left right c)"
    unfolding n_good_ones_zero n using point_good_t_col [of L F t left right] by auto
  have a: "(snd (filter_point L F k t left right) = None)
      = (\<forall>c<n_cols F. c \<noteq> t_col F \<longrightarrow> \<not> point_good L F t left right c)"
    unfolding z [symmetric] by (simp add: filter_point_def Let_def)
  have b: "length rec = n_cols F
      \<and> (\<forall>c<n_cols F. c \<noteq> t_col F \<longrightarrow> \<not> point_good L F t left right c \<longrightarrow> rec ! c = NaN)"
    if "snd (filter_point L F k t left right) = Some rec" for rec
  proof -
    from that have "rec = order_record (point_F L F t left right) (point_good L F t left right) t k
        \<or> rec = conv_record (point_F L F t left right) (point_good L F t left right) t k left right"
      by (auto simp: filter_point_def Let_def split: if_splits)
    then show ?thesis
      by (auto simp: order_record_def conv_record_def n tc)
  qed
  from a b show ?thesis by blast
qed


text \<open>
  Two runs in which a column without a value is flagged as good. The first is the boxcar
  filter above over a column with samples in the first and the last row only: at the
  output time 2 the window holds one sample, on an outer tap. The second is a median
  filter 2 wide (\<^verbatim>\<open>-Fm2 -D1\<close>) over five rows at the times 0 to 4 whose column has a
  sample in the last row only, with the bounds and first guesses that the loader sets from
  the extrema of the columns.
\<close>

definition zw_data :: "dbl list list" where
  "zw_data = [[Fin (1 / 2), Fin 1, Fin 2, Fin 3, Fin (9 / 2)], [Fin 1, NaN, NaN, NaN, Fin 5]]"

lemma zw_cols: "zw_data ! Suc 0 = [Fin 1, NaN, NaN, NaN, Fin 5]" "length zw_data = 2"
  by (simp_all add: zw_data_def)

lemma zw_rows:
  "conv_rows (wide_set zw_data) (Suc 0) 2 0 4 = [0]"
  "conv_rows (wide_set zw_data) (Suc 0) 3 2 5 = [4]"
  by (simp_all add: conv_rows_def wide_taps gmt_M_is_dnan_def wide_set_fields zw_cols
      upt_0_4 upt_2_5)

lemma zw_sums:
  "wt_sum (wide_set zw_data) (Suc 0) 2 0 4 = 0"
  "data_sum (wide_set zw_data) (Suc 0) 2 0 4 = Fin 0"
  by (simp_all add: wt_sum_def data_sum_def zw_rows conv_wt_def conv_val_def wide_taps
      wide_set_fields zw_cols)

lemma zw_outval:
  "conv_outval (wide_set zw_data) (Suc 0) 2 0 4 = NaN"
  "conv_outval (wide_set zw_data) (Suc 0) 3 2 5 = Fin 5"
  by (simp_all add: conv_outval_def wt_sum_def data_sum_def zw_rows conv_wt_def conv_val_def
      wide_taps wide_set_fields zw_cols)

lemma zw_good:
  "\<not> point_good L (wide_set zw_data) t left right 0"
  "point_good L (wide_set zw_data) 2 0 4 (Suc 0)"
  "point_good L (wide_set zw_data) 3 2 5 (Suc 0)"
  by (simp_all add: point_good_def wide_point_F good_conv_def zw_rows wide_set_fields
      filter_types robust_good_def good_lack_def)

lemma zw_points:
  "filter_point L (wide_set zw_data) 2 2 0 4 = (wide_set zw_data, Some [Fin 2, NaN])"
  "filter_point L (wide_set zw_data) 3 3 2 5 = (wide_set zw_data, Some [Fin 3, Fin 5])"
  by (simp_all add: filter_point_def wide_point_F n_good_ones_def conv_record_def zw_good
      zw_outval wide_set_fields filter_types upt_0_2 zw_cols)

lemma zw_steps:
  "filter_step L [1 / 2, 1, 2, 3, 9 / 2] (1 / 200000000)
     \<lparr>st_k = 2, st_left = 0, st_right = 0, st_F = wide_set zw_data, st_out = []\<rparr>
   = Next \<lparr>st_k = 3, st_left = 0, st_right = 4, st_F = wide_set zw_data,
        st_out = [[Fin 2, NaN]]\<rparr>"
  "filter_step L [1 / 2, 1, 2, 3, 9 / 2] (1 / 200000000)
     \<lparr>st_k = 3, st_left = 0, st_right = 4, st_F = wide_set zw_data, st_out = [[Fin 2, NaN]]\<rparr>
   = Next \<lparr>st_k = 4, st_left = 2, st_right = 5, st_F = wide_set zw_data,
        st_out = [[Fin 2, NaN], [Fin 3, Fin 5]]\<rparr>"
  by (simp_all add: filter_step_def window_step_def wide_set_fields wide_windows zw_points)

lemma zw_run:
  "filter1d_do_the_filter L (wide_set zw_data)
     = Some (Filtered (wide_set zw_data) [[Fin 2, NaN], [Fin 3, Fin 5]])"
proof -
  let ?run = "main_loop L [1 / 2, 1, 2, 3, 9 / 2] (1 / 200000000) 3"
  have "?run \<lparr>st_k = 2, st_left = 0, st_right = 0, st_F = wide_set zw_data, st_out = []\<rparr>
      = ?run \<lparr>st_k = 3, st_left = 0, st_right = 4, st_F = wide_set zw_data,
          st_out = [[Fin 2, NaN]]\<rparr>"
    by (rule main_loop_next) (simp_all add: zw_steps)
  also have "\<dots> = ?run \<lparr>st_k = 4, st_left = 2, st_right = 5, st_F = wide_set zw_data,
      st_out = [[Fin 2, NaN], [Fin 3, Fin 5]]\<rparr>"
    by (rule main_loop_next) (simp_all add: zw_steps)
  also have "\<dots> = Some (Filtered (wide_set zw_data) [[Fin 2, NaN], [Fin 3, Fin 5]])"
    by (simp add: main_loop_exit)
  finally show ?thesis
    by (simp add: filter1d_do_the_filter_def start_loop_def wide_set_fields wide_first
        wide_last GMT_CONV8_LIMIT_def)
qed

definition gap_data :: "dbl list list" where
  "gap_data = [[Fin 0, Fin 1, Fin 2, Fin 3, Fin 4], [NaN, NaN, NaN, NaN, Fin 5]]"

definition med_ex :: FILTER1D_INFO where
  "med_ex = F_zero\<lparr>n_cols := 2, n_rows := 5, equidist := False,
     filter_type := FILTER1D_MEDIAN, tm := [0, 1, 2, 3, 4], data := gap_data, dt := 1,
     filter_width := 2, min_loc := [Fin 0, Fin 5], max_loc := [Fin 4, Fin 5],
     last_loc := [Fin 2, Fin 5], this_loc := [Fin 0, Fin 0], min_scl := [Fin 0, Fin 0],
     max_scl := [Fin 2, Fin 0], last_scl := [Fin 1, Fin 0], this_scl := [Fin 0, Fin 0]\<rparr>"

definition med_set :: FILTER1D_INFO where
  "med_set = med_ex\<lparr>half_width := 1, t_start := 1, t_stop := 3\<rparr>"

definition med_next :: "dbl \<Rightarrow> FILTER1D_INFO" where
  "med_next x = med_set\<lparr>last_loc := [Fin 2, x], this_loc := [Fin 0, x]\<rparr>"

lemma med_ex_fields:
  "n_rows med_ex = 5" "equidist med_ex = False" "tm med_ex = [0, 1, 2, 3, 4]"
  "filter_type med_ex = 4" "filter_width med_ex = 2" "dt med_ex = 1"
  "out_at_time med_ex = False" "use_ends med_ex = False"
  by (simp_all add: med_ex_def F_zero_def filter_types)

lemma med_set_fields:
  "n_rows med_set = 5" "tm med_set = [0, 1, 2, 3, 4]" "data med_set = gap_data"
  "n_cols med_set = 2" "t_col med_set = 0" "filter_type med_set = 4"
  "half_width med_set = 1" "t_start med_set = 1" "t_stop med_set = 3"
  "out_at_time med_set = False" "robust med_set = False" "variable med_set = False"
  "highpass med_set = False" "check_lack med_set = False" "check_asym med_set = False"
  "check_q med_set = False" "n_multiples med_set = 0"
  "min_loc med_set = [Fin 0, Fin 5]" "max_loc med_set = [Fin 4, Fin 5]"
  "last_loc med_set = [Fin 2, Fin 5]" "this_loc med_set = [Fin 0, Fin 0]"
  by (simp_all add: med_set_def med_ex_def F_zero_def filter_types)

lemma gap_cols: "gap_data ! Suc 0 = [NaN, NaN, NaN, NaN, Fin 5]"
  by (simp add: gap_data_def)

lemma med_set_up: "filter1d_set_up_filter med_ex = Some med_set"
  by (simp add: filter1d_set_up_filter_def set_coefficients_def med_ex_fields filter_types
      set_start_stop_def GMT_CONV8_LIMIT_def box_scan box_scan2 med_set_def)

lemma med_work: "work_col med_set (Suc 0) 0 3 = []"
  by (simp add: work_col_def med_set_fields gap_cols upt_0_3 gmt_M_is_dnan_def)

lemma med_good:
  "robust_good med_set 1 0 3 (Suc 0)" "\<not> robust_good med_set 1 0 3 0"
  by (simp_all add: robust_good_def good_robust_def good_lack_def med_set_fields filter_types)

lemma med_estimates:
  "filter1d_get_robust_estimates L med_set (Suc 0) [] False
     = med_next (gmt_median L [] (Fin 5) (Fin 5) (Fin 5))"
  by (simp add: filter1d_get_robust_estimates_def med_set_fields filter_types med_next_def)

lemma med_point_F:
  "point_F L med_set 1 0 3 = med_next (gmt_median L [] (Fin 5) (Fin 5) (Fin 5))"
  by (simp add: point_F_def robust_pass_def med_set_fields filter_types upt_0_2 med_good
      med_work med_estimates)

lemma med_next_fields:
  "n_cols (med_next x) = 2" "t_col (med_next x) = 0" "highpass (med_next x) = False"
  "this_loc (med_next x) = [Fin 0, x]"
  by (simp_all add: med_next_def med_set_fields)

lemma med_point:
  "filter_point L med_set (Suc 0) 1 0 3 =
     (med_next (gmt_median L [] (Fin 5) (Fin 5) (Fin 5)),
      Some [Fin 1, gmt_median L [] (Fin 5) (Fin 5) (Fin 5)])"
  by (simp add: filter_point_def med_point_F point_good_def med_good n_good_ones_def
      order_record_def med_set_fields med_next_fields filter_types upt_0_2)

lemma med_step:
  "filter_step L [0, 1, 2, 3, 4] (1 / 100000000)
     \<lparr>st_k = Suc 0, st_left = 0, st_right = 0, st_F = med_set, st_out = []\<rparr>
   = Next \<lparr>st_k = 2, st_left = 0, st_right = 3,
        st_F = med_next (gmt_median L [] (Fin 5) (Fin 5) (Fin 5)),
        st_out = [[Fin 1, gmt_median L [] (Fin 5) (Fin 5) (Fin 5)]]\<rparr>"
  by (simp add: filter_step_def window_step_def med_set_fields box_windows med_point)

lemma ref_median_empty: "gmt_median ref_lib [] lo hi guess = NaN"
  by (simp add: ref_lib_def ref_median_def)

text \<open>
  C8. At an output time where no data column has a value to give, no record is to be
  written, rather than a record with NaN in every data column. The convolution drops a
  column that counted no sample (\<^verbatim>\<open>if (!F->n_this_col[i_col])\<close>), but it counts a sample
  on a tap of weight 0: the sums are both 0, the column stays good and the record (2, NaN)
  is written. The order-statistic branch has no such test at all: at the output time 1 the
  window of the median filter holds no sample, the estimate is asked of an empty array,
  and the record is written with what the library answers (NaN with the median of the
  examples).
\<close>

theorem record_with_no_value_is_written:
  "filter1d_set_up_filter (wide_ex zw_data) = Some (wide_set zw_data)
   \<and> filter1d_do_the_filter ref_lib (wide_set zw_data)
       = Some (Filtered (wide_set zw_data) [[Fin 2, NaN], [Fin 3, Fin 5]])
   \<and> filter1d_set_up_filter med_ex = Some med_set
   \<and> work_col med_set (Suc 0) 0 3 = []
   \<and> filter_step ref_lib [0, 1, 2, 3, 4] (1 / 100000000)
        \<lparr>st_k = Suc 0, st_left = 0, st_right = 0, st_F = med_set, st_out = []\<rparr>
      = Next \<lparr>st_k = 2, st_left = 0, st_right = 3, st_F = med_next NaN,
           st_out = [[Fin 1, NaN]]\<rparr>"
  by (simp add: wide_set_up zw_run med_set_up med_work med_step ref_median_empty)

section \<open>C10: rows with NaN as time\<close>

lemma DBL_MAX_pos: "0 < DBL_MAX"
proof -
  have "(1::real) / 2 ^ 52 \<le> 1" by simp
  then have "(0::real) < 2 - 1 / 2 ^ 52" by linarith
  then show ?thesis unfolding DBL_MAX_def by (simp add: zero_less_mult_iff)
qed

lemma DBL_MAX_not_neg: "\<not> DBL_MAX < 0"
  using DBL_MAX_pos by linarith

lemma load_rows_end: "\<not> row < S_n_rows \<Longrightarrow> load_rows upd ncols tcol S S_n_rows row st = Inr st"
  by (subst load_rows.simps) simp

lemma load_rows_nan:
  "row < S_n_rows \<Longrightarrow> gmt_M_is_dnan (S ! tcol ! row) \<Longrightarrow>
   load_rows upd ncols tcol S S_n_rows row st =
     load_rows upd ncols tcol S S_n_rows (row + 1) (st\<lparr>ld_n_rows := ld_n_rows st + 1\<rparr>)"
  by (subst load_rows.simps) simp

lemma load_rows_error:
  "row < S_n_rows \<Longrightarrow> \<not> gmt_M_is_dnan (S ! tcol ! row) \<Longrightarrow>
   dlt (S ! tcol ! row) (ld_last_time st) \<Longrightarrow>
   load_rows upd ncols tcol S S_n_rows row st = Inl (Time_decreases row)"
  by (subst load_rows.simps) simp

lemma load_rows_store:
  "row < S_n_rows \<Longrightarrow> \<not> gmt_M_is_dnan (S ! tcol ! row) \<Longrightarrow>
   \<not> dlt (S ! tcol ! row) (ld_last_time st) \<Longrightarrow>
   load_rows upd ncols tcol S S_n_rows row st =
     load_rows upd ncols tcol S S_n_rows (row + 1)
       ((foldl (store_cell upd S row) (st\<lparr>ld_last_time := S ! tcol ! row\<rparr>) [0..<ncols])
          \<lparr>ld_n_rows := ld_n_rows st + 1\<rparr>)"
  by (subst load_rows.simps) (simp add: Let_def)

text \<open>
  A segment of three rows \<open>(x, y, t)\<close> with the time in column 2 (\<^verbatim>\<open>-N2\<close>), whose second row
  has NaN as time, loaded into a block that still holds the three rows of an earlier
  segment.
\<close>

definition nan_seg :: "dbl list list" where
  "nan_seg = [[Fin 1, Fin 2, Fin 3], [Fin 10, Fin 20, Fin 30], [Fin 0, NaN, Fin 1]]"

definition old_block :: load_state where
  "old_block = \<lparr>ld_n_rows = 3, ld_last_time = Fin 12,
     ld_data = [[Fin 7, Fin 8, Fin 9], [Fin 70, Fin 80, Fin 90], [Fin 10, Fin 11, Fin 12]],
     ld_min_loc = [], ld_max_loc = []\<rparr>"

text \<open>
  C10. A row whose time is NaN is to be skipped: left out of the loaded series, of the row
  count and of the test for decreasing time. The loop does leave the test and the copy
  out, but its \<^verbatim>\<open>continue\<close> runs the increment \<^verbatim>\<open>++row, ++F.n_rows\<close>: the row is counted,
  and its slot in \<^verbatim>\<open>F.data\<close> keeps the row that the block held before, here the row
  \<open>(8, 80, 11)\<close> with the time 11 between the times 0 and 1.
\<close>

theorem nan_time_row_is_counted:
  "load_segment False 3 2 nan_seg 3 old_block =
     Inr \<lparr>ld_n_rows = 3, ld_last_time = Fin 1,
          ld_data = [[Fin 1, Fin 8, Fin 3], [Fin 10, Fin 80, Fin 30], [Fin 0, Fin 11, Fin 1]],
          ld_min_loc = [], ld_max_loc = []\<rparr>"
  by (simp add: load_segment_def old_block_def nan_seg_def load_rows_end load_rows_nan
      load_rows_store gmt_M_is_dnan_def dlt_def DBL_MAX_not_neg store_cell_def upt_0_3 Let_def)

section \<open>C2: the window tracker\<close>

text \<open>
  What the two loops of the tracker achieve: they only move forward, every row they pass
  fails the test of the window, and the row they stop at passes it.
\<close>

lemma advance_left_ge: "left \<le> advance_left ts n t_out small hw left"
proof (induction ts n t_out small hw left rule: advance_left.induct)
  case (1 ts n t_out small hw left)
  then show ?case by (subst advance_left.simps) auto
qed

lemma advance_left_le: "left \<le> n \<Longrightarrow> advance_left ts n t_out small hw left \<le> n"
proof (induction ts n t_out small hw left rule: advance_left.induct)
  case (1 ts n t_out small hw left)
  then show ?case by (subst advance_left.simps) auto
qed

lemma advance_left_passed:
  "left \<le> i \<Longrightarrow> i < advance_left ts n t_out small hw left \<Longrightarrow> t_out - ts ! i - small > hw"
proof (induction ts n t_out small hw left rule: advance_left.induct)
  case (1 ts n t_out small hw left)
  show ?case
  proof (cases "left < n \<and> t_out - ts ! left - small > hw")
    case True
    with "1.prems" have *: "i < advance_left ts n t_out small hw (left + 1)"
      by (subst (asm) advance_left.simps) simp
    show ?thesis
    proof (cases "i = left")
      case True
      with \<open>left < n \<and> t_out - ts ! left - small > hw\<close> show ?thesis by simp
    next
      case False
      with "1.prems" have "left + 1 \<le> i" by simp
      with "1.IH" True * show ?thesis by simp
    qed
  next
    case False
    with "1.prems" show ?thesis by (subst (asm) advance_left.simps) auto
  qed
qed

lemma advance_left_stops:
  "advance_left ts n t_out small hw left < n \<Longrightarrow>
   \<not> t_out - ts ! advance_left ts n t_out small hw left - small > hw"
proof (induction ts n t_out small hw left rule: advance_left.induct)
  case (1 ts n t_out small hw left)
  show ?case
  proof (cases "left < n \<and> t_out - ts ! left - small > hw")
    case True
    then have e: "advance_left ts n t_out small hw left = advance_left ts n t_out small hw (left + 1)"
      by (subst advance_left.simps) simp
    with "1.IH" True "1.prems" show ?thesis by simp
  next
    case False
    then have e: "advance_left ts n t_out small hw left = left"
      by (subst advance_left.simps) auto
    with False "1.prems" show ?thesis by auto
  qed
qed

lemma advance_right_ge: "right \<le> advance_right ts n t_out small hw right"
proof (induction ts n t_out small hw right rule: advance_right.induct)
  case (1 ts n t_out small hw right)
  then show ?case by (subst advance_right.simps) auto
qed

lemma advance_right_le: "right \<le> n \<Longrightarrow> advance_right ts n t_out small hw right \<le> n"
proof (induction ts n t_out small hw right rule: advance_right.induct)
  case (1 ts n t_out small hw right)
  then show ?case by (subst advance_right.simps) auto
qed

lemma advance_right_passed:
  "right \<le> i \<Longrightarrow> i < advance_right ts n t_out small hw right \<Longrightarrow>
   ts ! i - t_out - small \<le> hw"
proof (induction ts n t_out small hw right rule: advance_right.induct)
  case (1 ts n t_out small hw right)
  show ?case
  proof (cases "right < n \<and> ts ! right - t_out - small \<le> hw")
    case True
    with "1.prems" have *: "i < advance_right ts n t_out small hw (right + 1)"
      by (subst (asm) advance_right.simps) simp
    show ?thesis
    proof (cases "i = right")
      case True
      with \<open>right < n \<and> ts ! right - t_out - small \<le> hw\<close> show ?thesis by simp
    next
      case False
      with "1.prems" have "right + 1 \<le> i" by simp
      with "1.IH" True * show ?thesis by simp
    qed
  next
    case False
    with "1.prems" show ?thesis by (subst (asm) advance_right.simps) auto
  qed
qed

lemma advance_right_stops:
  "advance_right ts n t_out small hw right < n \<Longrightarrow>
   \<not> ts ! advance_right ts n t_out small hw right - t_out - small \<le> hw"
proof (induction ts n t_out small hw right rule: advance_right.induct)
  case (1 ts n t_out small hw right)
  show ?case
  proof (cases "right < n \<and> ts ! right - t_out - small \<le> hw")
    case True
    then have e: "advance_right ts n t_out small hw right
        = advance_right ts n t_out small hw (right + 1)"
      by (subst advance_right.simps) simp
    with "1.IH" True "1.prems" show ?thesis by simp
  next
    case False
    then have e: "advance_right ts n t_out small hw right = right"
      by (subst advance_right.simps) auto
    with False "1.prems" show ?thesis by auto
  qed
qed

text \<open>
  The window by brute force: the rows whose time satisfies the two tests of the tracker
  for the output time and the half-width in force.
\<close>

definition brute_window :: "real list \<Rightarrow> nat \<Rightarrow> real \<Rightarrow> real \<Rightarrow> real \<Rightarrow> nat set" where
  "brute_window ts n small t_out hw =
     {i. i < n \<and> t_out - ts ! i - small \<le> hw \<and> ts ! i - t_out - small \<le> hw}"

lemma tracker_exact:
  assumes s: "sorted ts" and n: "n = length ts" and ln: "left \<le> n" and rn: "right \<le> n"
    and a: "\<forall>i<left. ts ! i < t_out - hw - small"
    and b: "\<forall>i<right. ts ! i \<le> t_out + hw + small"
  shows "{advance_left ts n t_out small hw left ..< advance_right ts n t_out small hw right}
           = brute_window ts n small t_out hw"
proof -
  let ?l = "advance_left ts n t_out small hw left"
  let ?r = "advance_right ts n t_out small hw right"
  have l_le: "?l \<le> n" using ln by (rule advance_left_le)
  have r_le: "?r \<le> n" using rn by (rule advance_right_le)
  show ?thesis
  proof (rule set_eqI)
    fix i
    show "i \<in> {?l..<?r} \<longleftrightarrow> i \<in> brute_window ts n small t_out hw"
    proof
      assume "i \<in> {?l..<?r}"
      then have li: "?l \<le> i" and ir: "i < ?r" by simp_all
      from ir r_le have i_n: "i < n" by simp
      with li have "?l < n" by simp
      then have "\<not> t_out - ts ! ?l - small > hw" by (rule advance_left_stops)
      moreover from s li i_n n have "ts ! ?l \<le> ts ! i" by (simp add: sorted_nth_mono)
      ultimately have c1: "t_out - ts ! i - small \<le> hw" by simp
      have c2: "ts ! i - t_out - small \<le> hw"
      proof (cases "i < right")
        case True
        with b have "ts ! i \<le> t_out + hw + small" by simp
        then show ?thesis by simp
      next
        case False
        then have "right \<le> i" by simp
        then show ?thesis using ir by (rule advance_right_passed)
      qed
      from i_n c1 c2 show "i \<in> brute_window ts n small t_out hw"
        by (simp add: brute_window_def)
    next
      assume "i \<in> brute_window ts n small t_out hw"
      then have i_n: "i < n" and c1: "t_out - ts ! i - small \<le> hw"
        and c2: "ts ! i - t_out - small \<le> hw"
        by (simp_all add: brute_window_def)
      have li: "?l \<le> i"
      proof (rule ccontr)
        assume "\<not> ?l \<le> i"
        then have il: "i < ?l" by simp
        show False
        proof (cases "i < left")
          case True
          with a have "ts ! i < t_out - hw - small" by simp
          with c1 show False by simp
        next
          case False
          then have "left \<le> i" by simp
          then have "t_out - ts ! i - small > hw" using il by (rule advance_left_passed)
          with c1 show False by simp
        qed
      qed
      have ir: "i < ?r"
      proof (rule ccontr)
        assume "\<not> i < ?r"
        then have ri: "?r \<le> i" by simp
        with i_n have "?r < n" by simp
        then have "\<not> ts ! ?r - t_out - small \<le> hw" by (rule advance_right_stops)
        moreover from s ri i_n n have "ts ! ?r \<le> ts ! i" by (simp add: sorted_nth_mono)
        ultimately show False using c2 by simp
      qed
      from li ir show "i \<in> {?l..<?r}" by simp
    qed
  qed
qed

lemma tracker_keeps_left:
  assumes a: "\<forall>i<left. ts ! i < t_out - hw - small"
  shows "\<forall>i<advance_left ts n t_out small hw left. ts ! i < t_out - hw - small"
proof (intro allI impI)
  fix i
  assume il: "i < advance_left ts n t_out small hw left"
  show "ts ! i < t_out - hw - small"
  proof (cases "i < left")
    case True
    with a show ?thesis by simp
  next
    case False
    then have "left \<le> i" by simp
    then have "t_out - ts ! i - small > hw" using il by (rule advance_left_passed)
    then show ?thesis by simp
  qed
qed

lemma tracker_keeps_right:
  assumes b: "\<forall>i<right. ts ! i \<le> t_out + hw + small"
  shows "\<forall>i<advance_right ts n t_out small hw right. ts ! i \<le> t_out + hw + small"
proof (intro allI impI)
  fix i
  assume ir: "i < advance_right ts n t_out small hw right"
  show "ts ! i \<le> t_out + hw + small"
  proof (cases "i < right")
    case True
    with b show ?thesis by simp
  next
    case False
    then have "right \<le> i" by simp
    then have "ts ! i - t_out - small \<le> hw" using ir by (rule advance_right_passed)
    then show ?thesis by simp
  qed
qed


text \<open>
  The tracker over a run: \<open>windows\<close> moves \<^verbatim>\<open>left\<close> and \<^verbatim>\<open>right\<close> as the main loop does, for
  the output points that reach the tracker, each with the half-width in force at that
  point (one and the same for a fixed width, interpolated anew at every point in
  variable-width mode), and lists the window of each point.
\<close>

fun windows ::
    "real list \<Rightarrow> nat \<Rightarrow> real \<Rightarrow> nat \<Rightarrow> nat \<Rightarrow> (real \<times> real) list \<Rightarrow> (nat \<times> nat) list" where
  "windows ts n small left right [] = []"
| "windows ts n small left right ((t_out, hw) # ps) =
     (let l = advance_left ts n t_out small hw left;
          r = advance_right ts n t_out small hw right
      in (l, r) # windows ts n small l r ps)"

definition window_exact :: "real list \<Rightarrow> nat \<Rightarrow> real \<Rightarrow> real \<times> real \<Rightarrow> nat \<times> nat \<Rightarrow> bool" where
  "window_exact ts n small p w = ({fst w..<snd w} = brute_window ts n small (fst p) (snd p))"

lemma windows_length: "length (windows ts n small left right ps) = length ps"
  by (induction ps arbitrary: left right) (auto simp: Let_def)

lemma windows_exact_gen:
  assumes "sorted ts" "n = length ts"
  shows "left \<le> n \<Longrightarrow> right \<le> n \<Longrightarrow>
    sorted (map (\<lambda>p. fst p - snd p) ps) \<Longrightarrow> sorted (map (\<lambda>p. fst p + snd p) ps) \<Longrightarrow>
    (\<forall>p\<in>set ps. \<forall>i<left. ts ! i < fst p - snd p - small) \<Longrightarrow>
    (\<forall>p\<in>set ps. \<forall>i<right. ts ! i \<le> fst p + snd p + small) \<Longrightarrow>
    list_all2 (window_exact ts n small) ps (windows ts n small left right ps)"
proof (induction ps arbitrary: left right)
  case Nil
  then show ?case by simp
next
  case (Cons p ps)
  obtain t_out hw where p: "p = (t_out, hw)" by (cases p)
  let ?l = "advance_left ts n t_out small hw left"
  let ?r = "advance_right ts n t_out small hw right"
  from Cons.prems(5) p have a: "\<forall>i<left. ts ! i < t_out - hw - small" by simp
  from Cons.prems(6) p have b: "\<forall>i<right. ts ! i \<le> t_out + hw + small" by simp
  have ex: "{?l..<?r} = brute_window ts n small t_out hw"
    using assms Cons.prems(1,2) a b by (rule tracker_exact)
  have a': "\<forall>i<?l. ts ! i < t_out - hw - small" using a by (rule tracker_keeps_left)
  have b': "\<forall>i<?r. ts ! i \<le> t_out + hw + small" using b by (rule tracker_keeps_right)
  have lo: "\<forall>q\<in>set ps. t_out - hw \<le> fst q - snd q"
    using Cons.prems(3) p by auto
  have hi: "\<forall>q\<in>set ps. t_out + hw \<le> fst q + snd q"
    using Cons.prems(4) p by auto
  have a'': "\<forall>q\<in>set ps. \<forall>i<?l. ts ! i < fst q - snd q - small"
  proof (intro ballI allI impI)
    fix q i assume "q \<in> set ps" "i < ?l"
    with a' lo have "ts ! i < t_out - hw - small" "t_out - hw \<le> fst q - snd q" by simp_all
    then show "ts ! i < fst q - snd q - small" by simp
  qed
  have b'': "\<forall>q\<in>set ps. \<forall>i<?r. ts ! i \<le> fst q + snd q + small"
  proof (intro ballI allI impI)
    fix q i assume "q \<in> set ps" "i < ?r"
    with b' hi have "ts ! i \<le> t_out + hw + small" "t_out + hw \<le> fst q + snd q" by simp_all
    then show "ts ! i \<le> fst q + snd q + small" by simp
  qed
  have "list_all2 (window_exact ts n small) ps (windows ts n small ?l ?r ps)"
  proof (rule Cons.IH)
    show "?l \<le> n" using Cons.prems(1) by (rule advance_left_le)
    show "?r \<le> n" using Cons.prems(2) by (rule advance_right_le)
    show "sorted (map (\<lambda>p. fst p - snd p) ps)" using Cons.prems(3) by simp
    show "sorted (map (\<lambda>p. fst p + snd p) ps)" using Cons.prems(4) by simp
    show "\<forall>q\<in>set ps. \<forall>i<?l. ts ! i < fst q - snd q - small" by (rule a'')
    show "\<forall>q\<in>set ps. \<forall>i<?r. ts ! i \<le> fst q + snd q + small" by (rule b'')
  qed
  moreover have "window_exact ts n small p (?l, ?r)"
    using ex by (simp add: window_exact_def p)
  ultimately show ?case by (simp add: p Let_def)
qed

lemma windows_mono_gen:
  "sorted (map fst ((left, right) # windows ts n small left right ps))
   \<and> sorted (map snd ((left, right) # windows ts n small left right ps))"
proof (induction ps arbitrary: left right)
  case Nil
  then show ?case by simp
next
  case (Cons p ps)
  obtain t_out hw where p: "p = (t_out, hw)" by (cases p)
  let ?l = "advance_left ts n t_out small hw left"
  let ?r = "advance_right ts n t_out small hw right"
  have l: "left \<le> ?l" by (rule advance_left_ge)
  have r: "right \<le> ?r" by (rule advance_right_ge)
  from Cons.IH [of ?l ?r]
  have s1: "sorted (map fst ((?l, ?r) # windows ts n small ?l ?r ps))"
    and s2: "sorted (map snd ((?l, ?r) # windows ts n small ?l ?r ps))" by simp_all
  have "sorted (left # map fst ((?l, ?r) # windows ts n small ?l ?r ps))"
    using s1 l by (auto simp: order_trans)
  moreover have "sorted (right # map snd ((?l, ?r) # windows ts n small ?l ?r ps))"
    using s2 r by (auto simp: order_trans)
  ultimately show ?case by (simp add: p Let_def)
qed

text \<open>
  The windows of a run of the engine. The loop body moves the window by the two loops
  above whenever it reaches them; \<open>tracked\<close> is the structure in force when it does (in
  variable-width mode the structure set up for the width of this output time), and
  \<open>None\<close> at an output time that the loop passes over before. \<open>run_windows\<close> follows
  \<^verbatim>\<open>while (k <= last_k)\<close> for at most \<open>n\<close> turns and lists, for every output point at
  which the window was moved, the output time and the half-width in force with the indices
  \<^verbatim>\<open>left\<close> and \<^verbatim>\<open>right\<close> after the two loops.
\<close>

lemma window_step_tracker:
  "st_left (window_step L T_array small st F) =
     advance_left (tm F) (n_rows F) (T_array ! st_k st) small (half_width F) (st_left st)"
  "st_right (window_step L T_array small st F) =
     advance_right (tm F) (n_rows F) (T_array ! st_k st) small (half_width F) (st_right st)"
  by (simp_all add: window_step_def Let_def split: prod.splits)

definition tracked :: "GMT_lib \<Rightarrow> real list \<Rightarrow> loop_state \<Rightarrow> FILTER1D_INFO option" where
  "tracked L T_array st =
     (let F = st_F st; k = st_k st
      in if variable F then
           (if T_array ! k < ft F ! 0 \<or> T_array ! k > ft F ! (length (ft F) - 1) then None
            else
              (case gmt_intpol L (ft F) (fw F) (T_array ! k) of
                 None \<Rightarrow> None
               | Some w \<Rightarrow>
                   (case filter1d_set_up_filter (F\<lparr>filter_width := w\<rparr>) of
                      None \<Rightarrow> None
                    | Some F' \<Rightarrow>
                        if T_array ! k < t_start F' \<or> T_array ! k > t_stop F' then None
                        else Some F')))
         else Some F)"

lemma filter_step_tracked:
  "tracked L T_array st = Some F' \<Longrightarrow>
   filter_step L T_array small st = Next (window_step L T_array small st F')"
  by (auto simp: tracked_def filter_step_def Let_def split: if_splits option.splits)

lemma tracked_keeps:
  assumes "tracked L T_array st = Some F'"
  shows "tm F' = tm (st_F st)" "n_rows F' = n_rows (st_F st)"
  using assms set_up_keeps [of "(st_F st)\<lparr>filter_width := w\<rparr>" F' for w]
  by (auto simp: tracked_def Let_def split: if_splits option.splits)

lemma filter_step_passes:
  assumes "tracked L T_array st = None" and "filter_step L T_array small st = Next st'"
  shows "st_left st' = st_left st" "st_right st' = st_right st"
    "tm (st_F st') = tm (st_F st)" "n_rows (st_F st') = n_rows (st_F st)"
  using assms set_up_keeps [of "(st_F st)\<lparr>filter_width := w\<rparr>" "st_F st'" for w]
  by (auto simp: tracked_def filter_step_def Let_def split: if_splits option.splits)

lemma window_step_keeps:
  "tm (st_F (window_step L T_array small st F)) = tm F"
  "n_rows (st_F (window_step L T_array small st F)) = n_rows F"
proof -
  have "tm (fst (filter_point L F k t l r)) = tm F" for k t l r
    by (simp add: filter_point_def Let_def keeps_point keeps_fields)
  moreover have "n_rows (fst (filter_point L F k t l r)) = n_rows F" for k t l r
    by (simp add: filter_point_def Let_def keeps_point keeps_fields)
  ultimately show "tm (st_F (window_step L T_array small st F)) = tm F"
    "n_rows (st_F (window_step L T_array small st F)) = n_rows F"
    by (simp_all add: window_step_def Let_def split: prod.splits) (metis fst_conv)+
qed

fun run_windows ::
    "GMT_lib \<Rightarrow> real list \<Rightarrow> real \<Rightarrow> nat \<Rightarrow> nat \<Rightarrow> loop_state
      \<Rightarrow> ((real \<times> real) \<times> (nat \<times> nat)) list" where
  "run_windows L T_array small last_k 0 st = []"
| "run_windows L T_array small last_k (Suc n) st =
     (if st_k st \<le> last_k then
        (case filter_step L T_array small st of
           Next st' \<Rightarrow>
             (case tracked L T_array st of
                Some F \<Rightarrow> [((T_array ! st_k st, half_width F), (st_left st', st_right st'))]
              | None \<Rightarrow> [])
             @ run_windows L T_array small last_k n st'
         | _ \<Rightarrow> [])
      else [])"

lemma run_windows_are_windows:
  "map snd (run_windows L T_array small last_k n st)
     = windows (tm (st_F st)) (n_rows (st_F st)) small (st_left st) (st_right st)
         (map fst (run_windows L T_array small last_k n st))"
proof (induction n arbitrary: st)
  case 0
  then show ?case by simp
next
  case (Suc n)
  show ?case
  proof (cases "st_k st \<le> last_k")
    case False
    then show ?thesis by simp
  next
    case k: True
    show ?thesis
    proof (cases "tracked L T_array st")
      case None
      show ?thesis
      proof (cases "filter_step L T_array small st")
        case (Next st')
        from filter_step_passes [OF None Next] Suc.IH [of st'] k None Next
        show ?thesis by simp
      qed (use k in simp_all)
    next
      case (Some F)
      let ?st' = "window_step L T_array small st F"
      have fs: "filter_step L T_array small st = Next ?st'"
        using Some by (rule filter_step_tracked)
      note tk = tracked_keeps [OF Some]
      have "tm (st_F ?st') = tm (st_F st)" "n_rows (st_F ?st') = n_rows (st_F st)"
        using tk by (simp_all add: window_step_keeps)
      with Suc.IH [of ?st'] k Some fs tk show ?thesis
        by (simp add: window_step_tracker Let_def)
    qed
  qed
qed

lemma run_windows_step:
  "0 < n \<Longrightarrow> st_k st \<le> last_k \<Longrightarrow> tracked L T_array st = Some F \<Longrightarrow>
   filter_step L T_array small st = Next st' \<Longrightarrow>
   run_windows L T_array small last_k n st =
     ((T_array ! st_k st, half_width F), (st_left st', st_right st'))
       # run_windows L T_array small last_k (n - 1) st'"
  by (cases n) simp_all

lemma run_windows_pass:
  "0 < n \<Longrightarrow> st_k st \<le> last_k \<Longrightarrow> tracked L T_array st = None \<Longrightarrow>
   filter_step L T_array small st = Next st' \<Longrightarrow>
   run_windows L T_array small last_k n st = run_windows L T_array small last_k (n - 1) st'"
  by (cases n) simp_all

lemma run_windows_end:
  "\<not> st_k st \<le> last_k \<Longrightarrow> run_windows L T_array small last_k n st = []"
  by (cases n) simp_all

lemma tracked_fixed: "\<not> variable (st_F st) \<Longrightarrow> tracked L T_array st = Some (st_F st)"
  by (simp add: tracked_def)

lemma zw_windows:
  "run_windows ref_lib [1 / 2, 1, 2, 3, 9 / 2] (1 / 200000000) 3 5
     \<lparr>st_k = 2, st_left = 0, st_right = 0, st_F = wide_set zw_data, st_out = []\<rparr>
   = [((2, 3 / 2), (0, 4)), ((3, 3 / 2), (2, 5))]"
proof -
  let ?run = "run_windows ref_lib [1 / 2, 1, 2, 3, 9 / 2] (1 / 200000000) 3"
  have "?run 5 \<lparr>st_k = 2, st_left = 0, st_right = 0, st_F = wide_set zw_data, st_out = []\<rparr>
      = ((2, 3 / 2), (0, 4)) # ?run 4 \<lparr>st_k = 3, st_left = 0, st_right = 4,
          st_F = wide_set zw_data, st_out = [[Fin 2, NaN]]\<rparr>"
    by (subst run_windows_step [OF _ _ tracked_fixed zw_steps(1)])
       (simp_all add: wide_set_fields)
  also have "?run 4 \<lparr>st_k = 3, st_left = 0, st_right = 4,
          st_F = wide_set zw_data, st_out = [[Fin 2, NaN]]\<rparr>
      = ((3, 3 / 2), (2, 5)) # ?run 3 \<lparr>st_k = 4, st_left = 2, st_right = 5,
          st_F = wide_set zw_data, st_out = [[Fin 2, NaN], [Fin 3, Fin 5]]\<rparr>"
    by (subst run_windows_step [OF _ _ tracked_fixed zw_steps(2)])
       (simp_all add: wide_set_fields)
  also have "?run 3 \<lparr>st_k = 4, st_left = 2, st_right = 5,
          st_F = wide_set zw_data, st_out = [[Fin 2, NaN], [Fin 3, Fin 5]]\<rparr> = []"
    by (simp add: run_windows_end)
  finally show ?thesis .
qed

text \<open>
  C2, as amended. Along the output points of a run, \<^verbatim>\<open>left\<close> and \<^verbatim>\<open>right\<close> never decrease
  from one output point to the next. For a series with non-decreasing time, the window of
  every output point is the brute-force window, provided the two bounds \<open>T - half_width\<close>
  and \<open>T + half_width\<close> of the window do not decrease along the output points. That is so
  for every fixed width with output times in increasing order; in variable-width mode it
  is so as long as the half-width changes by no more than the output time advances.
\<close>

theorem window_tracker_exact:
  "sorted (map (\<lambda>p. fst (snd p))
      (run_windows L T_array small last_k n
        \<lparr>st_k = k, st_left = 0, st_right = 0, st_F = F, st_out = []\<rparr>))
   \<and> sorted (map (\<lambda>p. snd (snd p))
      (run_windows L T_array small last_k n
        \<lparr>st_k = k, st_left = 0, st_right = 0, st_F = F, st_out = []\<rparr>))
   \<and> (sorted (tm F) \<and> n_rows F = length (tm F)
      \<and> sorted (map (\<lambda>p. fst (fst p) - snd (fst p))
           (run_windows L T_array small last_k n
             \<lparr>st_k = k, st_left = 0, st_right = 0, st_F = F, st_out = []\<rparr>))
      \<and> sorted (map (\<lambda>p. fst (fst p) + snd (fst p))
           (run_windows L T_array small last_k n
             \<lparr>st_k = k, st_left = 0, st_right = 0, st_F = F, st_out = []\<rparr>))
      \<longrightarrow> list_all (\<lambda>p. {fst (snd p)..<snd (snd p)}
                  = brute_window (tm F) (n_rows F) small (fst (fst p)) (snd (fst p)))
            (run_windows L T_array small last_k n
              \<lparr>st_k = k, st_left = 0, st_right = 0, st_F = F, st_out = []\<rparr>))"
proof -
  let ?st = "\<lparr>st_k = k, st_left = 0, st_right = 0, st_F = F, st_out = []\<rparr>"
  let ?ws = "run_windows L T_array small last_k n ?st"
  let ?ps = "map fst ?ws"
  have w: "map snd ?ws = windows (tm F) (n_rows F) small 0 0 ?ps"
    using run_windows_are_windows [of L T_array small last_k n ?st] by simp
  from windows_mono_gen [of 0 0 "tm F" "n_rows F" small ?ps]
  have "sorted (map fst (map snd ?ws))" "sorted (map snd (map snd ?ws))"
    unfolding w by simp_all
  then have mono: "sorted (map (\<lambda>p. fst (snd p)) ?ws)" "sorted (map (\<lambda>p. snd (snd p)) ?ws)"
    by (simp_all add: comp_def)
  have exact: "list_all (\<lambda>p. {fst (snd p)..<snd (snd p)}
        = brute_window (tm F) (n_rows F) small (fst (fst p)) (snd (fst p))) ?ws"
    if s: "sorted (tm F)" and n: "n_rows F = length (tm F)"
      and lo: "sorted (map (\<lambda>p. fst (fst p) - snd (fst p)) ?ws)"
      and hi: "sorted (map (\<lambda>p. fst (fst p) + snd (fst p)) ?ws)"
  proof -
    have "list_all2 (window_exact (tm F) (n_rows F) small) ?ps
        (windows (tm F) (n_rows F) small 0 0 ?ps)"
      using s n by (rule windows_exact_gen) (use lo hi in \<open>simp_all add: comp_def\<close>)
    then have "list_all2 (window_exact (tm F) (n_rows F) small) (map fst ?ws) (map snd ?ws)"
      by (simp only: w)
    then have "\<forall>p\<in>set ?ws. window_exact (tm F) (n_rows F) small (fst p) (snd p)"
      by (simp add: list_all2_map1 list_all2_map2 list_all2_same)
    then show ?thesis
      by (simp add: list_all_iff window_exact_def)
  qed
  from mono exact show ?thesis by blast
qed


theorem window_tracker_exact_witness:
  "run_windows ref_lib [1 / 2, 1, 2, 3, 9 / 2] (1 / 200000000) 3 5
     \<lparr>st_k = 2, st_left = 0, st_right = 0, st_F = wide_set zw_data, st_out = []\<rparr>
   = [((2, 3 / 2), (0, 4)), ((3, 3 / 2), (2, 5))]
   \<and> {0..<4} = brute_window [1 / 2, 1, 2, 3, 9 / 2] 5 (1 / 200000000) 2 (3 / 2)
   \<and> {2..<5} = brute_window [1 / 2, 1, 2, 3, 9 / 2] 5 (1 / 200000000) 3 (3 / 2)"
  using window_tracker_exact [of ref_lib "[1 / 2, 1, 2, 3, 9 / 2]" "1 / 200000000" 3 5 2
      "wide_set zw_data"]
  by (simp add: zw_windows wide_set_fields)

text \<open>
  C2 as stated fails in variable-width mode: the indices only move forward, so a window
  that grows to the left is not followed. Eleven rows at the times 0 to 10, the data
  column equal to the time, a boxcar filter whose width is read from the table
  (5, 2), (6, 6) and output times from 3 to 9 in steps of 1. For the example the library's
  \<^verbatim>\<open>gmt_intpol\<close> is the linear interpolation between the two rows of the table. The output
  times outside the table are passed over. At the output time 5 the half-width is 1 and
  the window is \<open>[4, 7)\<close>; at the output time 6 the half-width is 3, the rows within reach
  are 3 to 9, and \<^verbatim>\<open>left\<close> stays at 4: the window is \<open>[4, 10)\<close> and the record is
  (6, 13/2), the mean of the rows 4 to 9.
\<close>

definition lin_intpol :: "real list \<Rightarrow> real list \<Rightarrow> real \<Rightarrow> real option" where
  "lin_intpol x y t =
     (if length x = 2 \<and> length y = 2 \<and> x ! 0 < x ! 1
      then Some (y ! 0 + (t - x ! 0) * (y ! 1 - y ! 0) / (x ! 1 - x ! 0)) else None)"

definition var_lib :: GMT_lib where
  "var_lib = ref_lib\<lparr>gmt_create_array := even_times, gmt_intpol := lin_intpol\<rparr>"

definition ramp :: "real list" where
  "ramp = [0, 1, 2, 3, 4, 5, 6, 7, 8, 9, 10]"

definition var_ex :: FILTER1D_INFO where
  "var_ex = F_zero\<lparr>n_cols := 2, n_rows := 11, out_at_time := True, variable := True,
     filter_type := FILTER1D_BOXCAR, tm := ramp, data := [map Fin ramp, map Fin ramp],
     ft := [5, 6], fw := [2, 6], t_start := 3, t_stop := 9, t_start_t := 3, t_stop_t := 9,
     t_int := 1, T_set := 3\<rparr>"

definition var_a :: FILTER1D_INFO where
  "var_a = var_ex\<lparr>filter_width := 2, dt := 1, half_width := 1, half_n_f_wts := 1,
     n_f_wts := 3, f_wt := [1, 1, 1], t_start := 4, t_stop := 8\<rparr>"

definition var_b :: FILTER1D_INFO where
  "var_b = var_ex\<lparr>filter_width := 6, dt := 1, half_width := 3, half_n_f_wts := 3,
     n_f_wts := 7, f_wt := [1, 1, 1, 1, 1, 1, 1], t_start := 6, t_stop := 6\<rparr>"

lemma var_lib_fields:
  "gmt_create_array var_lib = even_times" "gmt_intpol var_lib = lin_intpol"
  by (simp_all add: var_lib_def)

lemma var_ex_fields:
  "variable var_ex" "out_at_time var_ex" "ft var_ex = [5, 6]" "fw var_ex = [2, 6]"
  "t_start var_ex = 3" "t_stop var_ex = 9" "t_int var_ex = 1"
  "equidist var_ex" "n_rows var_ex = 11" "tm var_ex = ramp" "filter_type var_ex = 0"
  "use_ends var_ex = False" "T_set var_ex = 3" "t_start_t var_ex = 3" "t_stop_t var_ex = 9"
  by (simp_all add: var_ex_def F_zero_def filter_types)

lemma var_a_fields:
  "variable var_a" "ft var_a = [5, 6]" "fw var_a = [2, 6]" "equidist var_a"
  "n_rows var_a = 11" "tm var_a = ramp" "data var_a = [map Fin ramp, map Fin ramp]"
  "n_cols var_a = 2" "t_col var_a = 0" "filter_type var_a = 0" "filter_width var_a = 2"
  "dt var_a = 1" "half_width var_a = 1" "half_n_f_wts var_a = 1" "n_f_wts var_a = 3"
  "f_wt var_a = [1, 1, 1]" "t_start var_a = 4" "t_stop var_a = 8"
  "robust var_a = False" "highpass var_a = False" "check_lack var_a = False"
  "check_asym var_a = False" "check_q var_a = False" "f_operator var_a = False"
  by (simp_all add: var_a_def var_ex_def F_zero_def filter_types)

lemma var_b_fields:
  "variable var_b" "ft var_b = [5, 6]" "fw var_b = [2, 6]"
  "n_rows var_b = 11" "tm var_b = ramp" "data var_b = [map Fin ramp, map Fin ramp]"
  "n_cols var_b = 2" "t_col var_b = 0" "filter_type var_b = 0" "filter_width var_b = 6"
  "dt var_b = 1" "half_width var_b = 3" "half_n_f_wts var_b = 3" "n_f_wts var_b = 7"
  "f_wt var_b = [1, 1, 1, 1, 1, 1, 1]" "t_start var_b = 6" "t_stop var_b = 6"
  "robust var_b = False" "highpass var_b = False" "check_lack var_b = False"
  "check_asym var_b = False" "check_q var_b = False" "f_operator var_b = False"
  by (simp_all add: var_b_def var_ex_def F_zero_def filter_types)

lemma var_times: "even_times 3 9 1 = Some [3, 4, 5, 6, 7, 8, 9]"
  by (simp add: even_times_def upt_rec)

lemma var_widths: "lin_intpol [5, 6] [2, 6] 5 = Some 2" "lin_intpol [5, 6] [2, 6] 6 = Some 6"
  by (simp_all add: lin_intpol_def)

lemma var_weights: "set_weights 0 1 3 3 7 = [1, 1, 1, 1, 1, 1, 1]"
  by (simp add: set_weights_def get_weight_def filter1d_boxcar_weight_def filter_types
      eval_nat_numeral)

lemma var_coeff:
  "set_coefficients (var_ex\<lparr>filter_width := 2, dt := 1\<rparr>) =
     var_ex\<lparr>filter_width := 2, dt := 1, half_width := 1, half_n_f_wts := 1, n_f_wts := 3,
       f_wt := [1, 1, 1]\<rparr>"
  "set_coefficients (var_a\<lparr>filter_width := 6, dt := 1\<rparr>) =
     var_ex\<lparr>filter_width := 6, dt := 1, half_width := 3, half_n_f_wts := 3, n_f_wts := 7,
       f_wt := [1, 1, 1, 1, 1, 1, 1], t_start := 4, t_stop := 8\<rparr>"
  by (simp_all add: set_coefficients_def var_a_def var_ex_fields filter_types lrint_def Let_def
      box_weights var_weights)

lemma var_set_up_a: "filter1d_set_up_filter (var_ex\<lparr>filter_width := 2\<rparr>) = Some var_a"
  by (simp add: filter1d_set_up_filter_def var_ex_fields ramp_def var_coeff set_start_stop_def
      var_a_def)

lemma var_set_up_b: "filter1d_set_up_filter (var_a\<lparr>filter_width := 6\<rparr>) = Some var_b"
  by (simp add: filter1d_set_up_filter_def var_a_fields ramp_def var_coeff set_start_stop_def
      var_ex_fields var_b_def)

lemma var_windows:
  "advance_left ramp 11 5 (1 / 100000000) 1 0 = 4"
  "advance_right ramp 11 5 (1 / 100000000) 1 0 = 7"
  "advance_left ramp 11 6 (1 / 100000000) 3 4 = 4"
  "advance_right ramp 11 6 (1 / 100000000) 3 7 = 10"
  by (simp_all add: ramp_def advance_left_step advance_left_stop advance_right_step
      advance_right_stop)

lemma upt_4_7: "[4..<7] = [4, 5, 6]"
  by (simp add: upt_rec)

lemma upt_4_10: "[4..<10] = [4, 5, 6, 7, 8, 9]"
  by (simp add: upt_rec)

lemma var_rows:
  "conv_rows var_a (Suc 0) 5 4 7 = [4, 5, 6]"
  "conv_rows var_b (Suc 0) 6 4 10 = [4, 5, 6, 7, 8, 9]"
  by (simp_all add: conv_rows_def tap_index_def gmt_M_is_dnan_def var_a_fields var_b_fields
      ramp_def upt_4_7 upt_4_10 floor_minus_one)


lemma var_taps:
  "tap_index var_a 5 4 = 2" "tap_index var_a 5 5 = 1" "tap_index var_a 5 6 = 0"
  "tap_index var_b 6 4 = 5" "tap_index var_b 6 5 = 4" "tap_index var_b 6 6 = 3"
  "tap_index var_b 6 7 = 2" "tap_index var_b 6 8 = 1" "tap_index var_b 6 9 = 0"
  by (simp_all add: tap_index_def var_a_fields var_b_fields ramp_def floor_minus_one)

lemma var_outval:
  "conv_outval var_a (Suc 0) 5 4 7 = Fin 5"
  "conv_outval var_b (Suc 0) 6 4 10 = Fin (13 / 2)"
  by (simp_all add: conv_outval_def wt_sum_def data_sum_def var_rows conv_wt_def conv_val_def
      var_taps var_a_fields var_b_fields ramp_def)

lemma var_point_F:
  "point_F L var_a t left right = var_a" "point_F L var_b t left right = var_b"
  by (simp_all add: point_F_def var_a_fields var_b_fields filter_types)

lemma var_good:
  "\<not> point_good L var_a t left right 0" "\<not> point_good L var_b t left right 0"
  "point_good L var_a 5 4 7 (Suc 0)" "point_good L var_b 6 4 10 (Suc 0)"
  by (simp_all add: point_good_def var_point_F good_conv_def var_rows var_a_fields var_b_fields
      filter_types robust_good_def good_lack_def)

lemma var_points:
  "filter_point L var_a 2 5 4 7 = (var_a, Some [Fin 5, Fin 5])"
  "filter_point L var_b 3 6 4 10 = (var_b, Some [Fin 6, Fin (13 / 2)])"
  by (simp_all add: filter_point_def var_point_F n_good_ones_def conv_record_def var_good
      var_outval var_a_fields var_b_fields filter_types upt_0_2)

lemma var_skip:
  "filter_step var_lib [3, 4, 5, 6, 7, 8, 9] small
     \<lparr>st_k = 0, st_left = l, st_right = r, st_F = var_ex, st_out = out\<rparr>
   = Next \<lparr>st_k = Suc 0, st_left = l, st_right = r, st_F = var_ex, st_out = out\<rparr>"
  "filter_step var_lib [3, 4, 5, 6, 7, 8, 9] small
     \<lparr>st_k = Suc 0, st_left = l, st_right = r, st_F = var_ex, st_out = out\<rparr>
   = Next \<lparr>st_k = 2, st_left = l, st_right = r, st_F = var_ex, st_out = out\<rparr>"
  "filter_step var_lib [3, 4, 5, 6, 7, 8, 9] small
     \<lparr>st_k = 4, st_left = l, st_right = r, st_F = var_b, st_out = out\<rparr>
   = Next \<lparr>st_k = 5, st_left = l, st_right = r, st_F = var_b, st_out = out\<rparr>"
  "filter_step var_lib [3, 4, 5, 6, 7, 8, 9] small
     \<lparr>st_k = 5, st_left = l, st_right = r, st_F = var_b, st_out = out\<rparr>
   = Next \<lparr>st_k = 6, st_left = l, st_right = r, st_F = var_b, st_out = out\<rparr>"
  "filter_step var_lib [3, 4, 5, 6, 7, 8, 9] small
     \<lparr>st_k = 6, st_left = l, st_right = r, st_F = var_b, st_out = out\<rparr>
   = Next \<lparr>st_k = 7, st_left = l, st_right = r, st_F = var_b, st_out = out\<rparr>"
  by (simp_all add: filter_step_def var_ex_fields var_b_fields)

lemma var_steps:
  "filter_step var_lib [3, 4, 5, 6, 7, 8, 9] (1 / 100000000)
     \<lparr>st_k = 2, st_left = 0, st_right = 0, st_F = var_ex, st_out = []\<rparr>
   = Next \<lparr>st_k = 3, st_left = 4, st_right = 7, st_F = var_a, st_out = [[Fin 5, Fin 5]]\<rparr>"
  "filter_step var_lib [3, 4, 5, 6, 7, 8, 9] (1 / 100000000)
     \<lparr>st_k = 3, st_left = 4, st_right = 7, st_F = var_a, st_out = [[Fin 5, Fin 5]]\<rparr>
   = Next \<lparr>st_k = 4, st_left = 4, st_right = 10, st_F = var_b,
        st_out = [[Fin 5, Fin 5], [Fin 6, Fin (13 / 2)]]\<rparr>"
  by (simp_all add: filter_step_def window_step_def var_ex_fields var_a_fields var_b_fields
      var_lib_fields var_widths var_set_up_a var_set_up_b var_windows var_points)


lemma var_run:
  "filter1d_do_the_filter var_lib var_ex
     = Some (Filtered var_b [[Fin 5, Fin 5], [Fin 6, Fin (13 / 2)]])"
proof -
  let ?run = "main_loop var_lib [3, 4, 5, 6, 7, 8, 9] (1 / 100000000) 6"
  let ?out = "[[Fin 5, Fin 5], [Fin 6, Fin (13 / 2)]]"
  have "?run \<lparr>st_k = 0, st_left = 0, st_right = 0, st_F = var_ex, st_out = []\<rparr>
      = ?run \<lparr>st_k = Suc 0, st_left = 0, st_right = 0, st_F = var_ex, st_out = []\<rparr>"
    by (rule main_loop_next) (simp_all add: var_skip)
  also have "\<dots> = ?run \<lparr>st_k = 2, st_left = 0, st_right = 0, st_F = var_ex, st_out = []\<rparr>"
    by (rule main_loop_next) (simp_all add: var_skip)
  also have "\<dots> = ?run \<lparr>st_k = 3, st_left = 4, st_right = 7, st_F = var_a,
      st_out = [[Fin 5, Fin 5]]\<rparr>"
    by (rule main_loop_next) (simp_all add: var_steps)
  also have "\<dots> = ?run \<lparr>st_k = 4, st_left = 4, st_right = 10, st_F = var_b, st_out = ?out\<rparr>"
    by (rule main_loop_next) (simp_all add: var_steps)
  also have "\<dots> = ?run \<lparr>st_k = 5, st_left = 4, st_right = 10, st_F = var_b, st_out = ?out\<rparr>"
    by (rule main_loop_next) (simp_all add: var_skip)
  also have "\<dots> = ?run \<lparr>st_k = 6, st_left = 4, st_right = 10, st_F = var_b, st_out = ?out\<rparr>"
    by (rule main_loop_next) (simp_all add: var_skip)
  also have "\<dots> = ?run \<lparr>st_k = 7, st_left = 4, st_right = 10, st_F = var_b, st_out = ?out\<rparr>"
    by (rule main_loop_next) (simp_all add: var_skip)
  also have "\<dots> = Some (Filtered var_b ?out)"
    by (simp add: main_loop_exit)
  finally show ?thesis
    by (simp add: filter1d_do_the_filter_def start_loop_def var_ex_fields var_lib_fields
        var_times GMT_CONV8_LIMIT_def eval_nat_numeral)
qed

lemma var_brute: "brute_window ramp 11 (1 / 100000000) 6 3 = {3, 4, 5, 6, 7, 8, 9}"
proof -
  have "brute_window ramp 11 (1 / 100000000) 6 3
      = set (filter (\<lambda>i. 6 - ramp ! i - 1 / 100000000 \<le> 3 \<and> ramp ! i - 6 - 1 / 100000000 \<le> 3)
          [0..<11])"
    by (auto simp: brute_window_def)
  also have "filter (\<lambda>i. 6 - ramp ! i - 1 / 100000000 \<le> 3 \<and> ramp ! i - 6 - 1 / 100000000 \<le> 3)
      [0..<11] = [3, 4, 5, 6, 7, 8, 9]"
    by (simp add: upt_rec ramp_def)
  finally show ?thesis by simp
qed

lemma var_tracked:
  "tracked var_lib [3, 4, 5, 6, 7, 8, 9] \<lparr>st_k = 0, st_left = l, st_right = r, st_F = var_ex, st_out = out\<rparr> = None"
  "tracked var_lib [3, 4, 5, 6, 7, 8, 9] \<lparr>st_k = Suc 0, st_left = l, st_right = r, st_F = var_ex, st_out = out\<rparr> = None"
  "tracked var_lib [3, 4, 5, 6, 7, 8, 9] \<lparr>st_k = 2, st_left = l, st_right = r, st_F = var_ex, st_out = out\<rparr> = Some var_a"
  "tracked var_lib [3, 4, 5, 6, 7, 8, 9] \<lparr>st_k = 3, st_left = l, st_right = r, st_F = var_a, st_out = out\<rparr> = Some var_b"
  "tracked var_lib [3, 4, 5, 6, 7, 8, 9] \<lparr>st_k = 4, st_left = l, st_right = r, st_F = var_b, st_out = out\<rparr> = None"
  "tracked var_lib [3, 4, 5, 6, 7, 8, 9] \<lparr>st_k = 5, st_left = l, st_right = r, st_F = var_b, st_out = out\<rparr> = None"
  "tracked var_lib [3, 4, 5, 6, 7, 8, 9] \<lparr>st_k = 6, st_left = l, st_right = r, st_F = var_b, st_out = out\<rparr> = None"
  by (simp_all add: tracked_def var_ex_fields var_a_fields var_b_fields var_lib_fields
      var_widths var_set_up_a var_set_up_b)

lemma var_run_windows:
  "run_windows var_lib [3, 4, 5, 6, 7, 8, 9] (1 / 100000000) 6 7
     \<lparr>st_k = 0, st_left = 0, st_right = 0, st_F = var_ex, st_out = []\<rparr>
   = [((5, 1), (4, 7)), ((6, 3), (4, 10))]"
proof -
  let ?run = "run_windows var_lib [3, 4, 5, 6, 7, 8, 9] (1 / 100000000) 6"
  let ?out = "[[Fin 5, Fin 5], [Fin 6, Fin (13 / 2)]]"
  have "?run 7 \<lparr>st_k = 0, st_left = 0, st_right = 0, st_F = var_ex, st_out = []\<rparr>
      = ?run 6 \<lparr>st_k = Suc 0, st_left = 0, st_right = 0, st_F = var_ex, st_out = []\<rparr>"
    by (subst run_windows_pass [OF _ _ var_tracked(1) var_skip(1)]) simp_all
  also have "\<dots> = ?run 5 \<lparr>st_k = 2, st_left = 0, st_right = 0, st_F = var_ex, st_out = []\<rparr>"
    by (subst run_windows_pass [OF _ _ var_tracked(2) var_skip(2)]) simp_all
  also have "\<dots> = ((5, 1), (4, 7)) # ?run 4 \<lparr>st_k = 3, st_left = 4, st_right = 7,
      st_F = var_a, st_out = [[Fin 5, Fin 5]]\<rparr>"
    by (subst run_windows_step [OF _ _ var_tracked(3) var_steps(1)])
       (simp_all add: var_a_fields)
  also have "?run 4 \<lparr>st_k = 3, st_left = 4, st_right = 7, st_F = var_a,
        st_out = [[Fin 5, Fin 5]]\<rparr>
      = ((6, 3), (4, 10)) # ?run 3 \<lparr>st_k = 4, st_left = 4, st_right = 10, st_F = var_b,
          st_out = ?out\<rparr>"
    by (subst run_windows_step [OF _ _ var_tracked(4) var_steps(2)])
       (simp_all add: var_b_fields)
  also have "?run 3 \<lparr>st_k = 4, st_left = 4, st_right = 10, st_F = var_b, st_out = ?out\<rparr>
      = ?run 2 \<lparr>st_k = 5, st_left = 4, st_right = 10, st_F = var_b, st_out = ?out\<rparr>"
    by (subst run_windows_pass [OF _ _ var_tracked(5) var_skip(3)]) simp_all
  also have "\<dots> = ?run 1 \<lparr>st_k = 6, st_left = 4, st_right = 10, st_F = var_b, st_out = ?out\<rparr>"
    by (subst run_windows_pass [OF _ _ var_tracked(6) var_skip(4)]) simp_all
  also have "\<dots> = ?run 0 \<lparr>st_k = 7, st_left = 4, st_right = 10, st_F = var_b, st_out = ?out\<rparr>"
    by (subst run_windows_pass [OF _ _ var_tracked(7) var_skip(5)]) simp_all
  finally show ?thesis by simp
qed

theorem variable_width_window_counterexample:
  "run_windows var_lib [3, 4, 5, 6, 7, 8, 9] (1 / 100000000) 6 7
     \<lparr>st_k = 0, st_left = 0, st_right = 0, st_F = var_ex, st_out = []\<rparr>
   = [((5, 1), (4, 7)), ((6, 3), (4, 10))]
   \<and> brute_window (tm var_ex) (n_rows var_ex) (1 / 100000000) 6 3 = {3, 4, 5, 6, 7, 8, 9}
   \<and> {4..<10} \<noteq> brute_window (tm var_ex) (n_rows var_ex) (1 / 100000000) 6 3
   \<and> filter1d_do_the_filter var_lib var_ex
       = Some (Filtered var_b [[Fin 5, Fin 5], [Fin 6, Fin (13 / 2)]])"
proof -
  have "(3::nat) \<notin> {4..<10}" "(3::nat) \<in> {3, 4, 5, 6, 7, 8, 9}" by simp_all
  then have "{4..<10} \<noteq> {3, 4, 5, 6, 7, 8, 9 :: nat}" by metis
  then show ?thesis
    by (simp add: var_run_windows var_ex_fields var_brute var_run)
qed

section \<open>C1: the boxcar filter as a moving average\<close>









definition reach_values :: "FILTER1D_INFO \<Rightarrow> real \<Rightarrow> real \<Rightarrow> nat \<Rightarrow> real list" where
  "reach_values F small t_out c =
     fin_values (map (\<lambda>i. data F ! c ! i)
       (filter (\<lambda>i. i \<in> brute_window (tm F) (n_rows F) small t_out (half_width F))
          [0..<n_rows F]))"

definition mean :: "real list \<Rightarrow> real" where
  "mean xs = sum_list xs / real (length xs)"

definition boxcar_record :: "FILTER1D_INFO \<Rightarrow> real \<Rightarrow> real \<Rightarrow> dbl list" where
  "boxcar_record F small t_out =
     map (\<lambda>c. if c = t_col F then Fin t_out
               else if reach_values F small t_out c = [] then NaN
               else Fin (mean (reach_values F small t_out c)))
       [0..<n_cols F]"

definition no_values :: "FILTER1D_INFO \<Rightarrow> real \<Rightarrow> real \<Rightarrow> bool" where
  "no_values F small t_out =
     list_all (\<lambda>c. c = t_col F \<or> reach_values F small t_out c = []) [0..<n_cols F]"

definition boxcar_output :: "FILTER1D_INFO \<Rightarrow> real \<Rightarrow> nat list \<Rightarrow> dbl list list" where
  "boxcar_output F small ks =
     map (\<lambda>k. boxcar_record F small (tm F ! k))
       (filter (\<lambda>k. \<not> no_values F small (tm F ! k)) ks)"





























lemma d1_first: "first_k [0, 1, 2, 3, 4] 5 1 0 = Some (Suc 0)"
  by (simp add: first_k_step first_k_stop)

lemma d1_last: "find_last_k [0, 1, 2, 3, 4] 3 4 = 3"
  by (simp add: eval_nat_numeral)


























text \<open>
  The condition on the half-width is needed as well. A sample of the window is weighted by
  the tap it is rounded to, \<open>round ((T - t) / dt)\<close> steps from the centre, and a tap farther
  than \<open>W/2\<close> from the centre has the weight 0. Five rows at the times 0.5, 1, 2, 3, 4.5
  with the samples 1 to 5 and \<^verbatim>\<open>-Fb3\<close>: the set-up takes \<open>dt = 1\<close> from the ends of the
  series, the half-width 1.5 gives five taps with the weights 0, 1, 1, 1, 0, and at the
  output time 2 the sample at 0.5, which is 1.5 away, falls on the outer tap. The record
  is (2, 3), the mean of 2, 3, 4; the mean of the four samples within 1.5 is 5/2.
\<close>

definition rnd_data :: "dbl list list" where
  "rnd_data = [[Fin (1 / 2), Fin 1, Fin 2, Fin 3, Fin (9 / 2)], [Fin 1, Fin 2, Fin 3, Fin 4, Fin 5]]"

definition rnd_ex :: FILTER1D_INFO where
  "rnd_ex = F_zero\<lparr>n_cols := 2, n_rows := 5, filter_type := FILTER1D_BOXCAR,
     tm := [1 / 2, 1, 2, 3, 9 / 2], data := rnd_data, filter_width := 3\<rparr>"

definition rnd_set :: FILTER1D_INFO where
  "rnd_set = rnd_ex\<lparr>dt := 1, half_width := 3 / 2, half_n_f_wts := 2, n_f_wts := 5,
     f_wt := [0, 1, 1, 1, 0], t_start := 2, t_stop := 3\<rparr>"

lemma rnd_ex_fields:
  "n_rows rnd_ex = 5" "equidist rnd_ex = True" "tm rnd_ex = [1 / 2, 1, 2, 3, 9 / 2]"
  "filter_type rnd_ex = 0" "filter_width rnd_ex = 3"
  "out_at_time rnd_ex = False" "use_ends rnd_ex = False"
  by (simp_all add: rnd_ex_def F_zero_def filter_types)

lemma rnd_set_fields:
  "n_rows rnd_set = 5" "tm rnd_set = [1 / 2, 1, 2, 3, 9 / 2]" "data rnd_set = rnd_data"
  "n_cols rnd_set = 2" "t_col rnd_set = 0"
  "filter_type rnd_set = 0" "filter_width rnd_set = 3" "dt rnd_set = 1"
  "half_width rnd_set = 3 / 2" "half_n_f_wts rnd_set = 2" "n_f_wts rnd_set = 5"
  "f_wt rnd_set = [0, 1, 1, 1, 0]" "t_start rnd_set = 2" "t_stop rnd_set = 3"
  "out_at_time rnd_set = False" "use_ends rnd_set = False"
  "robust rnd_set = False" "variable rnd_set = False" "highpass rnd_set = False"
  "check_lack rnd_set = False" "check_asym rnd_set = False" "check_q rnd_set = False"
  "f_operator rnd_set = False"
  by (simp_all add: rnd_set_def rnd_ex_def F_zero_def filter_types)

lemma rnd_cols:
  "rnd_data ! Suc 0 = [Fin 1, Fin 2, Fin 3, Fin 4, Fin 5]" "length rnd_data = 2"
  by (simp_all add: rnd_data_def)

lemma rnd_weights: "set_weights 0 1 (3 / 2) 2 5 = [0, 1, 1, 1, 0]"
  by (simp add: set_weights_def get_weight_def filter1d_boxcar_weight_def filter_types
      eval_nat_numeral)

lemma rnd_lrint: "lrint (3 / 2) = 2"
proof -
  have "\<lfloor>3 / 2 :: real\<rfloor> = 1" by linarith
  then show ?thesis by (simp add: lrint_def Let_def)
qed

lemma rnd_coeff:
  "set_coefficients (rnd_ex\<lparr>dt := 1\<rparr>) =
     rnd_ex\<lparr>dt := 1, half_width := 3 / 2, half_n_f_wts := 2, n_f_wts := 5,
       f_wt := [0, 1, 1, 1, 0]\<rparr>"
  by (simp add: set_coefficients_def rnd_ex_fields filter_types rnd_lrint Let_def rnd_weights)

lemma rnd_scan:
  "scan_start [1 / 2, 1, 2, 3, 9 / 2] 5 (1 / 2) (1 / 200000000) (3 / 2) 0 = Some 2"
  by (simp add: scan_start_step scan_start_stop)

lemma rnd_scan2:
  "scan_stop [1 / 2, 1, 2, 3, 9 / 2] (9 / 2) (1 / 200000000) (3 / 2) 4 = 3"
  by (simp add: eval_nat_numeral)

lemma rnd_set_up: "filter1d_set_up_filter rnd_ex = Some rnd_set"
  by (simp add: filter1d_set_up_filter_def rnd_ex_fields rnd_coeff set_start_stop_def
      GMT_CONV8_LIMIT_def rnd_scan rnd_scan2 rnd_set_def)


lemma rnd_first: "first_k [1 / 2, 1, 2, 3, 9 / 2] 5 2 0 = Some 2"
  by (simp add: first_k_step first_k_stop)

lemma rnd_last: "find_last_k [1 / 2, 1, 2, 3, 9 / 2] 3 4 = 3"
  by (simp add: eval_nat_numeral)

lemma rnd_left:
  "advance_left [1 / 2, 1, 2, 3, 9 / 2] 5 2 (1 / 200000000) (3 / 2) 0 = 0"
  "advance_left [1 / 2, 1, 2, 3, 9 / 2] 5 3 (1 / 200000000) (3 / 2) 0 = 2"
  by (simp_all add: advance_left_step advance_left_stop)

lemma rnd_right:
  "advance_right [1 / 2, 1, 2, 3, 9 / 2] 5 2 (1 / 200000000) (3 / 2) 0 = 4"
  "advance_right [1 / 2, 1, 2, 3, 9 / 2] 5 3 (1 / 200000000) (3 / 2) 4 = 5"
  by (simp_all add: advance_right_step advance_right_stop advance_right_end)

lemma rnd_rows:
  "conv_rows rnd_set (Suc 0) 2 0 4 = [0, Suc 0, 2, 3]"
  "conv_rows rnd_set (Suc 0) 3 2 5 = [2, 3, 4]"
  by (simp_all add: conv_rows_def tap_index_def gmt_M_is_dnan_def rnd_set_fields rnd_cols
      upt_0_4 upt_2_5 floor_minus_one)

lemma rnd_taps:
  "tap_index rnd_set 2 0 = 4" "tap_index rnd_set 2 (Suc 0) = 3" "tap_index rnd_set 2 2 = 2"
  "tap_index rnd_set 2 3 = 1" "tap_index rnd_set 3 2 = 3" "tap_index rnd_set 3 3 = 2"
  "tap_index rnd_set 3 4 = 1"
  by (simp_all add: tap_index_def rnd_set_fields floor_minus_one)

lemma rnd_outval:
  "conv_outval rnd_set (Suc 0) 2 0 4 = Fin 3"
  "conv_outval rnd_set (Suc 0) 3 2 5 = Fin 4"
  by (simp_all add: conv_outval_def wt_sum_def data_sum_def rnd_rows conv_wt_def conv_val_def
      rnd_taps rnd_set_fields rnd_cols)

lemma rnd_point_F: "point_F L rnd_set t left right = rnd_set"
  by (simp add: point_F_def rnd_set_fields filter_types)

lemma rnd_good:
  "point_good L rnd_set 2 0 4 (Suc 0)" "\<not> point_good L rnd_set 2 0 4 0"
  "point_good L rnd_set 3 2 5 (Suc 0)" "\<not> point_good L rnd_set 3 2 5 0"
  by (simp_all add: point_good_def rnd_point_F good_conv_def rnd_rows rnd_set_fields filter_types
      robust_good_def good_lack_def)

lemma rnd_point:
  "filter_point L rnd_set 2 2 0 4 = (rnd_set, Some [Fin 2, Fin 3])"
  "filter_point L rnd_set 3 3 2 5 = (rnd_set, Some [Fin 3, Fin 4])"
  by (simp_all add: filter_point_def rnd_point_F n_good_ones_def conv_record_def rnd_good
      rnd_outval rnd_set_fields filter_types upt_0_2)

lemma rnd_step:
  "filter_step L [1 / 2, 1, 2, 3, 9 / 2] (1 / 200000000)
     \<lparr>st_k = 2, st_left = 0, st_right = 0, st_F = rnd_set, st_out = []\<rparr>
   = Next \<lparr>st_k = 3, st_left = 0, st_right = 4, st_F = rnd_set, st_out = [[Fin 2, Fin 3]]\<rparr>"
  "filter_step L [1 / 2, 1, 2, 3, 9 / 2] (1 / 200000000)
     \<lparr>st_k = 3, st_left = 0, st_right = 4, st_F = rnd_set, st_out = [[Fin 2, Fin 3]]\<rparr>
   = Next \<lparr>st_k = 4, st_left = 2, st_right = 5, st_F = rnd_set,
       st_out = [[Fin 2, Fin 3], [Fin 3, Fin 4]]\<rparr>"
  by (simp_all add: filter_step_def window_step_def rnd_set_fields rnd_left rnd_right rnd_point)

lemma rnd_run:
  "filter1d_do_the_filter L rnd_set = Some (Filtered rnd_set [[Fin 2, Fin 3], [Fin 3, Fin 4]])"
proof -
  have "main_loop L [1 / 2, 1, 2, 3, 9 / 2] (1 / 200000000) 3
      \<lparr>st_k = 2, st_left = 0, st_right = 0, st_F = rnd_set, st_out = []\<rparr>
    = main_loop L [1 / 2, 1, 2, 3, 9 / 2] (1 / 200000000) 3
      \<lparr>st_k = 3, st_left = 0, st_right = 4, st_F = rnd_set, st_out = [[Fin 2, Fin 3]]\<rparr>"
    by (rule main_loop_next) (simp_all add: rnd_step)
  also have "\<dots> = main_loop L [1 / 2, 1, 2, 3, 9 / 2] (1 / 200000000) 3
      \<lparr>st_k = 4, st_left = 2, st_right = 5, st_F = rnd_set,
        st_out = [[Fin 2, Fin 3], [Fin 3, Fin 4]]\<rparr>"
    by (rule main_loop_next) (simp_all add: rnd_step)
  also have "\<dots> = Some (Filtered rnd_set [[Fin 2, Fin 3], [Fin 3, Fin 4]])"
    by (simp add: main_loop_exit)
  finally show ?thesis
    by (simp add: filter1d_do_the_filter_def start_loop_def rnd_set_fields rnd_first rnd_last
        GMT_CONV8_LIMIT_def)
qed

lemma rnd_claimed:
  "boxcar_output rnd_set 0 [2, 3] = [[Fin 2, Fin (5 / 2)], [Fin 3, Fin 4]]"
  by (simp add: boxcar_output_def no_values_def boxcar_record_def reach_values_def
      brute_window_def rnd_set_fields rnd_cols upt_0_5 upt_0_2 mean_def)

lemma boxcar_rounding_example:
  "filter1d_set_up_filter rnd_ex = Some rnd_set
   \<and> filter1d_do_the_filter ref_lib rnd_set
       = Some (Filtered rnd_set [[Fin 2, Fin 3], [Fin 3, Fin 4]])
   \<and> boxcar_output rnd_set 0 [2, 3] = [[Fin 2, Fin (5 / 2)], [Fin 3, Fin 4]]"
  by (simp add: rnd_set_up rnd_run rnd_claimed)

section \<open>C3: custom coefficients\<close>









text \<open>
  Five rows at the times 0 to 4 with \<^verbatim>\<open>-Ff<file> -D1\<close> and three coefficients \<open>cf\<close>:
  the smoothing filter 1, 2, 1 and the second difference 1, -2, 1.
\<close>

definition cust_data :: "dbl list list" where
  "cust_data = [[Fin 0, Fin 1, Fin 2, Fin 3, Fin 4], [Fin 1, Fin 2, Fin 4, Fin 8, Fin 16]]"





lemma cust_cols: "cust_data ! Suc 0 = [Fin 1, Fin 2, Fin 4, Fin 8, Fin 16]"
  by (simp add: cust_data_def)












section \<open>C6: highpass output\<close>

text \<open>
  The five rows at the times 0 to 4 with the samples 1, 2, 4, 8, 16, filtered with
  \<^verbatim>\<open>-Fb2+h -D1 -T0/4/1\<close>. The set-up trims the range of the output times to 1..3, and
  the output times are 1, 2, 3, each the time of a native row.
\<close>

definition resample_lib :: GMT_lib where
  "resample_lib = ref_lib\<lparr>gmt_create_array := even_times\<rparr>"

definition hp_data :: "dbl list list" where
  "hp_data = [[Fin 0, Fin 1, Fin 2, Fin 3, Fin 4], [Fin 1, Fin 2, Fin 4, Fin 8, Fin 16]]"

definition hp_ex :: FILTER1D_INFO where
  "hp_ex = F_zero\<lparr>n_cols := 2, n_rows := 5, equidist := False, out_at_time := True,
     highpass := True, filter_type := FILTER1D_BOXCAR, tm := [0, 1, 2, 3, 4], data := hp_data,
     dt := 1, filter_width := 2, t_start := 0, t_stop := 4, t_start_t := 0, t_stop_t := 4,
     t_int := 1, T_set := 3\<rparr>"

definition hp_set :: FILTER1D_INFO where
  "hp_set = hp_ex\<lparr>half_width := 1, half_n_f_wts := 1, n_f_wts := 3, f_wt := [1, 1, 1],
     t_start := 1, t_stop := 3\<rparr>"

lemma hp_ex_fields:
  "n_rows hp_ex = 5" "equidist hp_ex = False" "tm hp_ex = [0, 1, 2, 3, 4]"
  "filter_type hp_ex = 0" "filter_width hp_ex = 2" "dt hp_ex = 1"
  "out_at_time hp_ex = True" "use_ends hp_ex = False" "T_set hp_ex = 3"
  "t_start_t hp_ex = 0" "t_stop_t hp_ex = 4" "t_int hp_ex = 1"
  by (simp_all add: hp_ex_def F_zero_def filter_types)

lemma hp_set_fields:
  "n_rows hp_set = 5" "tm hp_set = [0, 1, 2, 3, 4]" "data hp_set = hp_data"
  "n_cols hp_set = 2" "t_col hp_set = 0" "filter_type hp_set = 0" "dt hp_set = 1"
  "half_width hp_set = 1" "half_n_f_wts hp_set = 1" "n_f_wts hp_set = 3"
  "f_wt hp_set = [1, 1, 1]" "t_start hp_set = 1" "t_stop hp_set = 3" "t_int hp_set = 1"
  "out_at_time hp_set = True" "robust hp_set = False" "variable hp_set = False"
  "highpass hp_set = True" "check_lack hp_set = False" "check_asym hp_set = False"
  "check_q hp_set = False" "f_operator hp_set = False"
  by (simp_all add: hp_set_def hp_ex_def F_zero_def filter_types)

lemma hp_cols: "hp_data ! Suc 0 = [Fin 1, Fin 2, Fin 4, Fin 8, Fin 16]"
  by (simp add: hp_data_def)

lemma hp_coeff:
  "set_coefficients hp_ex =
     hp_ex\<lparr>half_width := 1, half_n_f_wts := 1, n_f_wts := 3, f_wt := [1, 1, 1]\<rparr>"
  by (simp add: set_coefficients_def hp_ex_fields filter_types lrint_def Let_def box_weights)

lemma hp_set_up: "filter1d_set_up_filter hp_ex = Some hp_set"
  by (simp add: filter1d_set_up_filter_def hp_ex_fields hp_coeff set_start_stop_def hp_set_def)

lemma hp_times: "even_times 1 3 1 = Some [1, 2, 3]"
  by (simp add: even_times_def upt_0_3)

lemma hp_rows:
  "conv_rows hp_set (Suc 0) 1 0 3 = [0, Suc 0, 2]"
  "conv_rows hp_set (Suc 0) 2 (Suc 0) 4 = [Suc 0, 2, 3]"
  "conv_rows hp_set (Suc 0) 3 2 5 = [2, 3, 4]"
  by (simp_all add: conv_rows_def tap_index_def gmt_M_is_dnan_def hp_set_fields hp_cols
      upt_0_3 upt_1_4 upt_2_5)

lemma hp_outval:
  "conv_outval hp_set (Suc 0) 1 0 3 = Fin (7 / 3)"
  "conv_outval hp_set (Suc 0) 2 (Suc 0) 4 = Fin (14 / 3)"
  "conv_outval hp_set (Suc 0) 3 2 5 = Fin (28 / 3)"
  by (simp_all add: conv_outval_def wt_sum_def data_sum_def hp_rows conv_wt_def conv_val_def
      tap_index_def hp_set_fields hp_cols)

lemma hp_point_F: "point_F L hp_set t left right = hp_set"
  by (simp add: point_F_def hp_set_fields filter_types)

lemma hp_good:
  "\<not> point_good L hp_set t left right 0"
  "point_good L hp_set 1 0 3 (Suc 0)"
  "point_good L hp_set 2 (Suc 0) 4 (Suc 0)"
  "point_good L hp_set 3 2 5 (Suc 0)"
  by (simp_all add: point_good_def hp_point_F good_conv_def hp_rows hp_set_fields filter_types
      robust_good_def good_lack_def)

lemma hp_points:
  "filter_point L hp_set 0 1 0 3 = (hp_set, Some [Fin 1, Fin (- 4 / 3)])"
  "filter_point L hp_set (Suc 0) 2 (Suc 0) 4 = (hp_set, Some [Fin 2, Fin (- 8 / 3)])"
  "filter_point L hp_set 2 3 2 5 = (hp_set, Some [Fin 3, Fin (- 16 / 3)])"
  by (simp_all add: filter_point_def hp_point_F n_good_ones_def conv_record_def hp_good
      hp_outval hp_set_fields filter_types upt_0_2 hp_cols dsub_def)

lemma hp_steps:
  "filter_step L [1, 2, 3] (1 / 100000000)
     \<lparr>st_k = 0, st_left = 0, st_right = 0, st_F = hp_set, st_out = out\<rparr>
   = Next \<lparr>st_k = Suc 0, st_left = 0, st_right = 3, st_F = hp_set,
        st_out = out @ [[Fin 1, Fin (- 4 / 3)]]\<rparr>"
  "filter_step L [1, 2, 3] (1 / 100000000)
     \<lparr>st_k = Suc 0, st_left = 0, st_right = 3, st_F = hp_set, st_out = out\<rparr>
   = Next \<lparr>st_k = 2, st_left = Suc 0, st_right = 4, st_F = hp_set,
        st_out = out @ [[Fin 2, Fin (- 8 / 3)]]\<rparr>"
  "filter_step L [1, 2, 3] (1 / 100000000)
     \<lparr>st_k = 2, st_left = Suc 0, st_right = 4, st_F = hp_set, st_out = out\<rparr>
   = Next \<lparr>st_k = 3, st_left = 2, st_right = 5, st_F = hp_set,
        st_out = out @ [[Fin 3, Fin (- 16 / 3)]]\<rparr>"
  by (simp_all add: filter_step_def window_step_def hp_set_fields box_windows hp_points)

text \<open>
  C6. In highpass mode the lowpass value is to be subtracted from the input sample at the
  native row whose time is the output time, with native and with resampled output times.
  The engine subtracts from \<^verbatim>\<open>F->data[i_col][k]\<close>, where \<^verbatim>\<open>k\<close> counts the output times. With
  native output times that is the row of the output time. With resampled output times it
  is not: here the output times 1, 2, 3 are subtracted from the samples 1, 2, 4 of the rows
  0, 1, 2, where the rows at these times hold the samples 2, 4, 8 (which would give
  -1/3, -2/3, -4/3).
\<close>

theorem highpass_resampled_reads_row_k:
  "filter1d_set_up_filter hp_ex = Some hp_set
   \<and> filter1d_do_the_filter resample_lib hp_set
       = Some (Filtered hp_set
           [[Fin 1, Fin (- 4 / 3)], [Fin 2, Fin (- 8 / 3)], [Fin 3, Fin (- 16 / 3)]])"
proof -
  let ?run = "main_loop resample_lib [1, 2, 3] (1 / 100000000) (Suc (Suc 0))"
  have "?run \<lparr>st_k = 0, st_left = 0, st_right = 0, st_F = hp_set, st_out = []\<rparr>
      = ?run \<lparr>st_k = Suc 0, st_left = 0, st_right = 3, st_F = hp_set,
          st_out = [] @ [[Fin 1, Fin (- 4 / 3)]]\<rparr>"
    by (rule main_loop_next) (simp_all add: hp_steps)
  also have "\<dots> = ?run \<lparr>st_k = 2, st_left = Suc 0, st_right = 4, st_F = hp_set,
          st_out = ([] @ [[Fin 1, Fin (- 4 / 3)]]) @ [[Fin 2, Fin (- 8 / 3)]]\<rparr>"
    by (rule main_loop_next) (simp_all add: hp_steps)
  also have "\<dots> = ?run \<lparr>st_k = 3, st_left = 2, st_right = 5, st_F = hp_set,
          st_out = (([] @ [[Fin 1, Fin (- 4 / 3)]]) @ [[Fin 2, Fin (- 8 / 3)]])
            @ [[Fin 3, Fin (- 16 / 3)]]\<rparr>"
    by (rule main_loop_next) (simp_all add: hp_steps)
  also have "\<dots> = Some (Filtered hp_set
      [[Fin 1, Fin (- 4 / 3)], [Fin 2, Fin (- 8 / 3)], [Fin 3, Fin (- 16 / 3)]])"
    by (simp add: main_loop_exit)
  finally show ?thesis
    by (simp add: hp_set_up filter1d_do_the_filter_def start_loop_def hp_set_fields
        resample_lib_def hp_times GMT_CONV8_LIMIT_def)
qed

section \<open>C9: robust convolution\<close>

text \<open>
  The two calls of the library median for column \<open>j\<close> as a robust convolution makes them:
  the location, searched between the extrema of the column from the previous estimate, and
  the scale, the median of the absolute deviations from that location with the bounds and
  the previous estimate of the scale. \<open>clip\<close> is the replacement of an outlier.
\<close>

definition median_loc :: "GMT_lib \<Rightarrow> FILTER1D_INFO \<Rightarrow> nat \<Rightarrow> dbl list \<Rightarrow> dbl" where
  "median_loc L F j work = gmt_median L work (min_loc F ! j) (max_loc F ! j) (last_loc F ! j)"

definition median_scl :: "GMT_lib \<Rightarrow> FILTER1D_INFO \<Rightarrow> nat \<Rightarrow> dbl list \<Rightarrow> dbl" where
  "median_scl L F j work =
     gmt_median L (map (\<lambda>x. dabs (dsub x (median_loc L F j work))) work)
       (min_scl F ! j) (max_scl F ! j) (last_scl F ! j)"

definition clip :: "dbl \<Rightarrow> dbl \<Rightarrow> dbl \<Rightarrow> dbl" where
  "clip loc scl val = (if dgt (dabs (dsub val loc)) (dmul (Fin 2.5) scl) then loc else val)"

lemma estimates_other:
  assumes "j \<noteq> c"
  shows "this_loc (filter1d_get_robust_estimates L G j w b) ! c = this_loc G ! c"
    "this_scl (filter1d_get_robust_estimates L G j w b) ! c = this_scl G ! c"
    "last_loc (filter1d_get_robust_estimates L G j w b) ! c = last_loc G ! c"
    "last_scl (filter1d_get_robust_estimates L G j w b) ! c = last_scl G ! c"
  using assms
  by (simp_all add: filter1d_get_robust_estimates_def Let_def split: prod.split)

lemma estimates_length:
  "length (this_loc (filter1d_get_robust_estimates L G j w b)) = length (this_loc G)"
  "length (this_scl (filter1d_get_robust_estimates L G j w b)) = length (this_scl G)"
  "length (last_loc (filter1d_get_robust_estimates L G j w b)) = length (last_loc G)"
  "length (last_scl (filter1d_get_robust_estimates L G j w b)) = length (last_scl G)"
  by (simp_all add: filter1d_get_robust_estimates_def Let_def split: prod.split)

lemma estimates_robust:
  assumes "filter_type G \<le> FILTER1D_CONVOLVE"
  shows "c < length (this_loc G) \<Longrightarrow>
      this_loc (filter1d_get_robust_estimates L G c w True) ! c = median_loc L G c w"
    "c < length (last_loc G) \<Longrightarrow>
      last_loc (filter1d_get_robust_estimates L G c w True) ! c = median_loc L G c w"
    "c < length (this_scl G) \<Longrightarrow>
      this_scl (filter1d_get_robust_estimates L G c w True) ! c = median_scl L G c w"
    "c < length (last_scl G) \<Longrightarrow>
      last_scl (filter1d_get_robust_estimates L G c w True) ! c = median_scl L G c w"
  using assms
  by (simp_all add: filter1d_get_robust_estimates_def Let_def median_loc_def median_scl_def
      filter_types)


lemma median_same:
  assumes "min_loc H = min_loc G" "max_loc H = max_loc G" "last_loc H ! c = last_loc G ! c"
    "min_scl H = min_scl G" "max_scl H = max_scl G" "last_scl H ! c = last_scl G ! c"
  shows "median_loc L H c w = median_loc L G c w" "median_scl L H c w = median_scl L G c w"
  using assms by (simp_all add: median_loc_def median_scl_def)

lemma pass_other:
  "c \<notin> set cols \<Longrightarrow>
   this_loc (foldl (\<lambda>G a. if good a then filter1d_get_robust_estimates L G a (wk a) b else G)
      G cols) ! c = this_loc G ! c
   \<and> this_scl (foldl (\<lambda>G a. if good a then filter1d_get_robust_estimates L G a (wk a) b else G)
      G cols) ! c = this_scl G ! c
   \<and> last_loc (foldl (\<lambda>G a. if good a then filter1d_get_robust_estimates L G a (wk a) b else G)
      G cols) ! c = last_loc G ! c
   \<and> last_scl (foldl (\<lambda>G a. if good a then filter1d_get_robust_estimates L G a (wk a) b else G)
      G cols) ! c = last_scl G ! c"
  by (induction cols arbitrary: G) (simp_all add: estimates_other)

lemma pass_at:
  "distinct cols \<Longrightarrow> c \<in> set cols \<Longrightarrow> good c \<Longrightarrow> filter_type G \<le> FILTER1D_CONVOLVE \<Longrightarrow>
   c < length (this_loc G) \<Longrightarrow> c < length (this_scl G) \<Longrightarrow>
   c < length (last_loc G) \<Longrightarrow> c < length (last_scl G) \<Longrightarrow>
   this_loc (foldl (\<lambda>G a. if good a then filter1d_get_robust_estimates L G a (wk a) True else G)
      G cols) ! c = median_loc L G c (wk c)
   \<and> this_scl (foldl (\<lambda>G a. if good a then filter1d_get_robust_estimates L G a (wk a) True else G)
      G cols) ! c = median_scl L G c (wk c)
   \<and> last_loc (foldl (\<lambda>G a. if good a then filter1d_get_robust_estimates L G a (wk a) True else G)
      G cols) ! c = median_loc L G c (wk c)
   \<and> last_scl (foldl (\<lambda>G a. if good a then filter1d_get_robust_estimates L G a (wk a) True else G)
      G cols) ! c = median_scl L G c (wk c)"
proof (induction cols arbitrary: G)
  case Nil
  then show ?case by simp
next
  case (Cons a cols)
  let ?f = "\<lambda>G a. if good a then filter1d_get_robust_estimates L G a (wk a) True else G"
  show ?case
  proof (cases "a = c")
    case True
    with Cons.prems have "c \<notin> set cols" by simp
    from pass_other [OF this, of good L wk True "?f G c"]
    show ?thesis
      using True Cons.prems by (simp add: estimates_robust)
  next
    case False
    let ?H = "?f G a"
    have k: "filter_type ?H = filter_type G" "min_loc ?H = min_loc G" "max_loc ?H = max_loc G"
      "min_scl ?H = min_scl G" "max_scl ?H = max_scl G"
      by (simp_all add: keeps_estimates keeps_fields)
    have o: "last_loc ?H ! c = last_loc G ! c" "last_scl ?H ! c = last_scl G ! c"
      using False by (simp_all add: estimates_other)
    have l: "length (this_loc ?H) = length (this_loc G)" "length (this_scl ?H) = length (this_scl G)"
      "length (last_loc ?H) = length (last_loc G)" "length (last_scl ?H) = length (last_scl G)"
      by (simp_all add: estimates_length)
    have m: "median_loc L ?H c (wk c) = median_loc L G c (wk c)"
      "median_scl L ?H c (wk c) = median_scl L G c (wk c)"
      by (rule median_same; simp only: k o)+
    have "this_loc (foldl ?f ?H cols) ! c = median_loc L ?H c (wk c)
      \<and> this_scl (foldl ?f ?H cols) ! c = median_scl L ?H c (wk c)
      \<and> last_loc (foldl ?f ?H cols) ! c = median_loc L ?H c (wk c)
      \<and> last_scl (foldl ?f ?H cols) ! c = median_scl L ?H c (wk c)"
      using Cons.prems False by (intro Cons.IH) (simp_all only: k l, simp_all)
    then show ?thesis by (simp add: m)
  qed
qed

lemma point_F_conv:
  "conv_rows (point_F L F t left right) = conv_rows F"
  "conv_wt (point_F L F t left right) = conv_wt F"
proof -
  have k: "half_n_f_wts (point_F L F t left right) = half_n_f_wts F"
    "n_f_wts (point_F L F t left right) = n_f_wts F" "tm (point_F L F t left right) = tm F"
    "dt (point_F L F t left right) = dt F" "data (point_F L F t left right) = data F"
    "f_wt (point_F L F t left right) = f_wt F"
    by (rule keeps_point, rule keeps_fields)+
  show "conv_rows (point_F L F t left right) = conv_rows F"
    by (intro ext) (simp add: conv_rows_def tap_index_def k)
  show "conv_wt (point_F L F t left right) = conv_wt F"
    by (intro ext) (simp add: conv_wt_def tap_index_def k)
qed

text \<open>
  C9. For a robust convolution filter and a column that passed the gates of the robust
  block, the structure after the block holds in \<^verbatim>\<open>this_loc\<close> the median of the window's
  samples of the column and in \<^verbatim>\<open>this_scl\<close> the median of their absolute deviations from
  it, both searched with the bounds and the previous estimate of the column and both kept
  as the previous estimates of the next output point; the weighted sum then takes every
  sample farther than 2.5 times the scale from the location as the location, and every
  other sample as it is.
\<close>

theorem robust_clipping:
  assumes rb: "robust F" and cv: "filter_type F \<le> FILTER1D_CONVOLVE"
    and c: "c < n_cols F" and g: "robust_good F t left right c"
    and len: "length (this_loc F) = n_cols F" "length (this_scl F) = n_cols F"
      "length (last_loc F) = n_cols F" "length (last_scl F) = n_cols F"
    and G: "G = point_F L F t left right"
    and loc: "loc = median_loc L F c (work_col F c left right)"
    and scl: "scl = median_scl L F c (work_col F c left right)"
  shows "this_loc G ! c = loc \<and> this_scl G ! c = scl
    \<and> last_loc G ! c = loc \<and> last_scl G ! c = scl
    \<and> data_sum G c t left right =
        foldl (\<lambda>s i. dadd s (dmul (Fin (conv_wt F t i)) (clip loc scl (data F ! c ! i))))
          (Fin 0) (conv_rows F c t left right)"
proof -
  have pf: "G = foldl (\<lambda>G a. if robust_good F t left right a
        then filter1d_get_robust_estimates L G a (work_col F a left right) True else G)
      F [0..<n_cols F]"
  proof -
    from rb have t: "robust F = True" by simp
    show ?thesis unfolding G point_F_def robust_pass_def t by simp
  qed
  have e: "this_loc G ! c = loc \<and> this_scl G ! c = scl
      \<and> last_loc G ! c = loc \<and> last_scl G ! c = scl"
    unfolding pf loc scl
    by (rule pass_at) (use c g cv len in simp_all)
  have k: "robust G = robust F" "data G = data F"
    unfolding G by (rule keeps_point, rule keeps_fields)+
  have v: "conv_val G c i = clip loc scl (data F ! c ! i)" for i
    using e by (simp add: conv_val_def clip_def k rb Let_def)
  have "data_sum G c t left right =
      foldl (\<lambda>s i. dadd s (dmul (Fin (conv_wt F t i)) (clip loc scl (data F ! c ! i))))
        (Fin 0) (conv_rows F c t left right)"
    by (simp add: data_sum_def v) (simp add: G point_F_conv)
  with e show ?thesis by simp
qed


text \<open>
  A robust boxcar filter 4 wide over five rows with one outlier, at the output time 2; the
  bounds and previous estimates are those the loader sets from the extrema of the columns.
\<close>

definition rob_data :: "dbl list list" where
  "rob_data = [[Fin 0, Fin 1, Fin 2, Fin 3, Fin 4], [Fin 1, Fin 2, Fin 100, Fin 4, Fin 5]]"

definition rob_set :: FILTER1D_INFO where
  "rob_set = F_zero\<lparr>n_cols := 2, n_rows := 5, equidist := False, robust := True,
     filter_type := FILTER1D_BOXCAR, tm := [0, 1, 2, 3, 4], data := rob_data, dt := 1,
     filter_width := 4, half_width := 2, half_n_f_wts := 2, n_f_wts := 5,
     f_wt := [1, 1, 1, 1, 1], t_start := 2, t_stop := 2,
     min_loc := [Fin 0, Fin 1], max_loc := [Fin 4, Fin 100], last_loc := [Fin 2, Fin (101 / 2)],
     this_loc := [Fin 0, Fin 0], min_scl := [Fin 0, Fin 0], max_scl := [Fin 2, Fin (99 / 2)],
     last_scl := [Fin 1, Fin (99 / 4)], this_scl := [Fin 0, Fin 0]\<rparr>"

lemma rob_set_fields:
  "n_rows rob_set = 5" "tm rob_set = [0, 1, 2, 3, 4]" "data rob_set = rob_data"
  "n_cols rob_set = 2" "t_col rob_set = 0" "filter_type rob_set = 0" "dt rob_set = 1"
  "half_width rob_set = 2" "half_n_f_wts rob_set = 2" "n_f_wts rob_set = 5"
  "f_wt rob_set = [1, 1, 1, 1, 1]" "robust rob_set = True" "highpass rob_set = False"
  "check_lack rob_set = False" "check_asym rob_set = False" "check_q rob_set = False"
  "f_operator rob_set = False"
  "min_loc rob_set = [Fin 0, Fin 1]" "max_loc rob_set = [Fin 4, Fin 100]"
  "last_loc rob_set = [Fin 2, Fin (101 / 2)]" "this_loc rob_set = [Fin 0, Fin 0]"
  "min_scl rob_set = [Fin 0, Fin 0]" "max_scl rob_set = [Fin 2, Fin (99 / 2)]"
  "last_scl rob_set = [Fin 1, Fin (99 / 4)]" "this_scl rob_set = [Fin 0, Fin 0]"
  by (simp_all add: rob_set_def F_zero_def filter_types)

lemma rob_cols: "rob_data ! Suc 0 = [Fin 1, Fin 2, Fin 100, Fin 4, Fin 5]"
  by (simp add: rob_data_def)

lemma rob_work: "work_col rob_set (Suc 0) 0 5 = [Fin 1, Fin 2, Fin 100, Fin 4, Fin 5]"
  by (simp add: work_col_def rob_set_fields rob_cols upt_0_5 gmt_M_is_dnan_def)

lemma rob_loc: "median_loc ref_lib rob_set (Suc 0) [Fin 1, Fin 2, Fin 100, Fin 4, Fin 5] = Fin 4"
  by (simp add: median_loc_def ref_lib_def ref_median_def)

lemma rob_scl: "median_scl ref_lib rob_set (Suc 0) [Fin 1, Fin 2, Fin 100, Fin 4, Fin 5] = Fin 2"
  by (simp add: median_scl_def rob_loc) (simp add: ref_lib_def ref_median_def dsub_def)

lemma rob_rows: "conv_rows rob_set (Suc 0) 2 0 5 = [0, Suc 0, 2, 3, 4]"
  by (simp add: conv_rows_def tap_index_def gmt_M_is_dnan_def rob_set_fields rob_cols upt_0_5)

lemma rob_good: "robust_good rob_set 2 0 5 (Suc 0)"
  by (simp add: robust_good_def good_robust_def good_lack_def rob_set_fields filter_types Let_def)

lemma rob_sum:
  "foldl (\<lambda>s i. dadd s (dmul (Fin (conv_wt rob_set 2 i))
       (clip (Fin 4) (Fin 2) (data rob_set ! Suc 0 ! i)))) (Fin 0) [0, Suc 0, 2, 3, 4] = Fin 16"
  by (simp add: conv_wt_def tap_index_def rob_set_fields rob_cols clip_def dsub_def)

theorem robust_clipping_witness:
  "this_loc (point_F ref_lib rob_set 2 0 5) ! Suc 0 = Fin 4
   \<and> this_scl (point_F ref_lib rob_set 2 0 5) ! Suc 0 = Fin 2
   \<and> last_loc (point_F ref_lib rob_set 2 0 5) ! Suc 0 = Fin 4
   \<and> last_scl (point_F ref_lib rob_set 2 0 5) ! Suc 0 = Fin 2
   \<and> data_sum (point_F ref_lib rob_set 2 0 5) (Suc 0) 2 0 5 = Fin 16"
proof -
  have rb: "robust rob_set" and cv: "filter_type rob_set \<le> FILTER1D_CONVOLVE"
    and c: "Suc 0 < n_cols rob_set"
    and len: "length (this_loc rob_set) = n_cols rob_set"
      "length (this_scl rob_set) = n_cols rob_set"
      "length (last_loc rob_set) = n_cols rob_set"
      "length (last_scl rob_set) = n_cols rob_set"
    by (simp_all add: rob_set_fields filter_types)
  have loc: "Fin 4 = median_loc ref_lib rob_set (Suc 0) (work_col rob_set (Suc 0) 0 5)"
    by (simp only: rob_work rob_loc)
  have scl: "Fin 2 = median_scl ref_lib rob_set (Suc 0) (work_col rob_set (Suc 0) 0 5)"
    by (simp only: rob_work rob_scl)
  from robust_clipping [OF rb cv c rob_good len refl loc scl]
  show ?thesis by (simp only: rob_rows rob_sum)
qed

section \<open>C5: the asymmetry gate\<close>

text \<open>
  The two-point average (coefficients 1/2, 1/2, \<^verbatim>\<open>-D1\<close>) with \<^verbatim>\<open>-S0.5\<close> over the rows at
  the times 0 to 4, every sample present.
\<close>

definition asym_ex :: FILTER1D_INFO where
  "asym_ex = F_zero\<lparr>n_cols := 2, n_rows := 5, equidist := False, check_asym := True,
     sym_coeff := 1 / 2, filter_type := FILTER1D_CUSTOM, tm := [0, 1, 2, 3, 4],
     data := cust_data, dt := 1, filter_width := DBL_MAX, Fin_w := [1 / 2, 1 / 2]\<rparr>"

definition asym_set :: FILTER1D_INFO where
  "asym_set = asym_ex\<lparr>n_f_wts := 2, f_wt := [1 / 2, 1 / 2], f_operator := False,
     half_n_f_wts := 1, half_width := 1, filter_width := 2, t_start := 1, t_stop := 3\<rparr>"

lemma asym_ex_fields:
  "n_rows asym_ex = 5" "equidist asym_ex = False" "tm asym_ex = [0, 1, 2, 3, 4]"
  "filter_type asym_ex = 3" "dt asym_ex = 1" "Fin_w asym_ex = [1 / 2, 1 / 2]"
  "out_at_time asym_ex = False" "use_ends asym_ex = False"
  by (simp_all add: asym_ex_def F_zero_def filter_types)

lemma asym_set_fields:
  "n_rows asym_set = 5" "tm asym_set = [0, 1, 2, 3, 4]" "data asym_set = cust_data"
  "n_cols asym_set = 2" "t_col asym_set = 0" "filter_type asym_set = 3" "dt asym_set = 1"
  "half_width asym_set = 1" "half_n_f_wts asym_set = 1" "n_f_wts asym_set = 2"
  "f_wt asym_set = [1 / 2, 1 / 2]" "f_operator asym_set = False" "t_start asym_set = 1"
  "t_stop asym_set = 3" "out_at_time asym_set = False" "variable asym_set = False"
  "robust asym_set = False" "highpass asym_set = False" "check_lack asym_set = False"
  "check_asym asym_set = True" "check_q asym_set = False" "sym_coeff asym_set = 1 / 2"
  by (simp_all add: asym_set_def asym_ex_def F_zero_def filter_types)

lemma asym_coeff:
  "set_coefficients asym_ex =
     asym_ex\<lparr>n_f_wts := 2, f_wt := [1 / 2, 1 / 2], f_operator := False,
       half_n_f_wts := 1, half_width := 1, filter_width := 2\<rparr>"
  by (simp add: set_coefficients_def asym_ex_fields filter_types Let_def gmt_M_is_zero_def
      GMT_CONV8_LIMIT_def)

lemma asym_set_up: "filter1d_set_up_filter asym_ex = Some asym_set"
  by (simp add: filter1d_set_up_filter_def asym_ex_fields asym_coeff set_start_stop_def
      GMT_CONV8_LIMIT_def box_scan box_scan2 asym_set_def)

lemma asym_rows:
  "conv_rows asym_set (Suc 0) 1 0 3 = [Suc 0, 2]"
  "conv_rows asym_set (Suc 0) 2 (Suc 0) 4 = [2, 3]"
  "conv_rows asym_set (Suc 0) 3 2 5 = [3, 4]"
  by (simp_all add: conv_rows_def tap_index_def gmt_M_is_dnan_def asym_set_fields cust_cols
      upt_0_3 upt_1_4 upt_2_5)

lemma asym_counts:
  "n_left_conv asym_set (Suc 0) 1 0 3 = 0" "n_right_conv asym_set (Suc 0) 1 0 3 = 1"
  "n_left_conv asym_set (Suc 0) 2 (Suc 0) 4 = 0" "n_right_conv asym_set (Suc 0) 2 (Suc 0) 4 = 1"
  "n_left_conv asym_set (Suc 0) 3 2 5 = 0" "n_right_conv asym_set (Suc 0) 3 2 5 = 1"
  by (simp_all add: n_left_conv_def n_right_conv_def asym_rows asym_set_fields)

lemma asym_claimed:
  "n_left_all asym_set (Suc 0) 2 (Suc 0) 4 = 1" "n_right_all asym_set (Suc 0) 2 (Suc 0) 4 = 1"
  by (simp_all add: n_left_all_def n_right_all_def asym_set_fields cust_cols upt_1_4
      gmt_M_is_dnan_def)

lemma asym_point_F: "point_F L asym_set t left right = asym_set"
  by (simp add: point_F_def asym_set_fields filter_types)

lemma asym_good:
  "\<not> point_good L asym_set t left right 0"
  "\<not> point_good L asym_set 1 0 3 (Suc 0)"
  "\<not> point_good L asym_set 2 (Suc 0) 4 (Suc 0)"
  "\<not> point_good L asym_set 3 2 5 (Suc 0)"
  by (simp_all add: point_good_def asym_point_F good_conv_def asym_rows asym_counts
      asym_set_fields filter_types robust_good_def good_lack_def asym_fails_def)

lemma asym_points:
  "filter_point L asym_set (Suc 0) 1 0 3 = (asym_set, None)"
  "filter_point L asym_set 2 2 (Suc 0) 4 = (asym_set, None)"
  "filter_point L asym_set 3 3 2 5 = (asym_set, None)"
  by (simp_all add: filter_point_def asym_point_F n_good_ones_def asym_good asym_set_fields
      filter_types upt_0_2)

lemma asym_steps:
  "filter_step L [0, 1, 2, 3, 4] (1 / 100000000)
     \<lparr>st_k = Suc 0, st_left = 0, st_right = 0, st_F = asym_set, st_out = []\<rparr>
   = Next \<lparr>st_k = 2, st_left = 0, st_right = 3, st_F = asym_set, st_out = []\<rparr>"
  "filter_step L [0, 1, 2, 3, 4] (1 / 100000000)
     \<lparr>st_k = 2, st_left = 0, st_right = 3, st_F = asym_set, st_out = []\<rparr>
   = Next \<lparr>st_k = 3, st_left = Suc 0, st_right = 4, st_F = asym_set, st_out = []\<rparr>"
  "filter_step L [0, 1, 2, 3, 4] (1 / 100000000)
     \<lparr>st_k = 3, st_left = Suc 0, st_right = 4, st_F = asym_set, st_out = []\<rparr>
   = Next \<lparr>st_k = 4, st_left = 2, st_right = 5, st_F = asym_set, st_out = []\<rparr>"
  by (simp_all add: filter_step_def window_step_def asym_set_fields box_windows asym_points)

lemma asym_run: "filter1d_do_the_filter L asym_set = Some (Filtered asym_set [])"
proof -
  let ?run = "main_loop L [0, 1, 2, 3, 4] (1 / 100000000) 3"
  have "?run \<lparr>st_k = Suc 0, st_left = 0, st_right = 0, st_F = asym_set, st_out = []\<rparr>
      = ?run \<lparr>st_k = 2, st_left = 0, st_right = 3, st_F = asym_set, st_out = []\<rparr>"
    by (rule main_loop_next) (simp_all add: asym_steps)
  also have "\<dots> = ?run \<lparr>st_k = 3, st_left = Suc 0, st_right = 4, st_F = asym_set, st_out = []\<rparr>"
    by (rule main_loop_next) (simp_all add: asym_steps)
  also have "\<dots> = ?run \<lparr>st_k = 4, st_left = 2, st_right = 5, st_F = asym_set, st_out = []\<rparr>"
    by (rule main_loop_next) (simp_all add: asym_steps)
  also have "\<dots> = Some (Filtered asym_set [])"
    by (simp add: main_loop_exit)
  finally show ?thesis
    by (simp add: filter1d_do_the_filter_def start_loop_def asym_set_fields d1_first d1_last
        GMT_CONV8_LIMIT_def)
qed

text \<open>
  C5. With \<^verbatim>\<open>-S\<close> the gate is to count the samples that are not NaN strictly before and
  strictly after the output time and to fail the column when
  \<open>|n_left - n_right| / (n_left + n_right) > sym_coeff\<close>. The robust block counts every
  sample of the window in this way. The plain convolution counts in its own loop (under
  the comment \<^verbatim>\<open>This wasn't already done\<close>), and there the counters come after the
  \<^verbatim>\<open>continue\<close> that passes over a row whose tap index lies outside the coefficient array:
  such a sample is not counted. Here the window of the output time 2 holds the rows at
  1, 2, 3, one sample before and one after the output time, a ratio of 0 that passes
  \<open>sym_coeff = 0.5\<close>. The row at time 1 has the tap index 2, outside the two coefficients:
  the gate sees 0 before and 1 after, a ratio of 1, and fails the column. The same happens
  at the output times 1 and 3, and the run writes no record at all.
\<close>

theorem asymmetry_gate_skips_rows_off_the_taps:
  "filter1d_set_up_filter asym_ex = Some asym_set
   \<and> filter1d_do_the_filter ref_lib asym_set = Some (Filtered asym_set [])
   \<and> \<not> point_good ref_lib asym_set 2 (Suc 0) 4 (Suc 0)
   \<and> n_left_conv asym_set (Suc 0) 2 (Suc 0) 4 = 0
   \<and> n_right_conv asym_set (Suc 0) 2 (Suc 0) 4 = 1
   \<and> n_left_all asym_set (Suc 0) 2 (Suc 0) 4 = 1
   \<and> n_right_all asym_set (Suc 0) 2 (Suc 0) 4 = 1
   \<and> \<not> asym_fails (sym_coeff asym_set) 1 1"
  by (simp add: asym_set_up asym_run asym_good asym_claimed asym_counts asym_set_fields
      asym_fails_def)

end
